theory Spec2Isabelle
  imports Main "HOL-Library.Multiset"
begin

section \<open>Go standard-library string functions, on byte strings\<close>

text \<open>
  A Go string is a byte sequence; here it is a \<open>string\<close> (a list of 8-bit characters).
  The library functions below are the ones the generator calls.

  Scope.  \<open>strings.ToLower\<close>, \<open>strings.ToUpper\<close>, \<open>strings.Title\<close>,
  \<open>strings.Fields\<close> and \<open>strings.TrimSpace\<close> read a string with a byte of
  \<open>0x80\<close> or more as UTF-8 and consult the Unicode tables of the Go library, which are not
  part of the repository.  \<open>ToLower\<close>, \<open>ToUpper\<close>, \<open>Title\<close>, \<open>Fields\<close> and
  \<open>TrimSpace\<close> below are these functions on ASCII strings (every byte below \<open>0x80\<close>,
  the predicate \<open>ascii\<close>): there they agree with Go, and on other strings they leave the
  bytes of \<open>0x80\<close> and more as they are, which Go does not.  The identifiers, type names
  and SQL text of every concrete request in this theory are ASCII.
\<close>

definition ascii :: "string \<Rightarrow> bool" where
  "ascii s = (\<forall>c \<in> set s. (of_char c :: nat) < 0x80)"

definition upper_letters :: string where
  "upper_letters = ''ABCDEFGHIJKLMNOPQRSTUVWXYZ''"

definition lower_letters :: string where
  "lower_letters = ''abcdefghijklmnopqrstuvwxyz''"

definition lower_char :: "char \<Rightarrow> char" where
  "lower_char c = (case map_of (zip upper_letters lower_letters) c of Some d \<Rightarrow> d | None \<Rightarrow> c)"

definition upper_char :: "char \<Rightarrow> char" where
  "upper_char c = (case map_of (zip lower_letters upper_letters) c of Some d \<Rightarrow> d | None \<Rightarrow> c)"

definition ToLower :: "string \<Rightarrow> string" where
  "ToLower s = map lower_char s"

definition ToUpper :: "string \<Rightarrow> string" where
  "ToUpper s = map upper_char s"

text \<open>
  \<open>strings.ToUpper(string(b))\<close> and \<open>strings.ToLower(string(b))\<close> for a byte
  \<open>b\<close>, on every byte.  The conversion \<open>string(b)\<close> gives the UTF-8 encoding of the
  code point with the number of the byte: the byte itself below \<open>0x80\<close>, two bytes from
  there on.  Of the code points from \<open>0x80\<close> to \<open>0xFF\<close>, those from \<open>0xE0\<close> to
  \<open>0xFE\<close> other than \<open>0xF7\<close> have their upper case \<open>0x20\<close> below (and those are
  the ones with a lower case, \<open>0x20\<close> above), \<open>0xB5\<close> has the upper case \<open>0x39C\<close>,
  \<open>0xFF\<close> has \<open>0x178\<close>, and the others are their own upper case.
\<close>

definition utf8 :: "nat \<Rightarrow> string" where
  "utf8 cp =
    (if cp < 0x80 then [char_of cp]
     else [char_of (0xC0 + cp div 0x40), char_of (0x80 + cp mod 0x40)])"

definition upper_latin1 :: "nat \<Rightarrow> nat" where
  "upper_latin1 cp =
    (if 0xE0 \<le> cp \<and> cp \<le> 0xFE \<and> cp \<noteq> 0xF7 then cp - 0x20
     else if cp = 0xB5 then 0x39C
     else if cp = 0xFF then 0x178
     else cp)"

definition lower_latin1 :: "nat \<Rightarrow> nat" where
  "lower_latin1 cp = (if 0xC0 \<le> cp \<and> cp \<le> 0xDE \<and> cp \<noteq> 0xD7 then cp + 0x20 else cp)"

definition ToUpper_byte :: "char \<Rightarrow> string" where
  "ToUpper_byte b =
    (if (of_char b :: nat) < 0x80 then [upper_char b] else utf8 (upper_latin1 (of_char b)))"

definition ToLower_byte :: "char \<Rightarrow> string" where
  "ToLower_byte b =
    (if (of_char b :: nat) < 0x80 then [lower_char b] else utf8 (lower_latin1 (of_char b)))"

fun HasPrefix :: "string \<Rightarrow> string \<Rightarrow> bool" where
  "HasPrefix s [] = True"
| "HasPrefix [] (p # ps) = False"
| "HasPrefix (c # cs) (p # ps) = (c = p \<and> HasPrefix cs ps)"

definition HasSuffix :: "string \<Rightarrow> string \<Rightarrow> bool" where
  "HasSuffix s suf = HasPrefix (rev s) (rev suf)"

fun Contains :: "string \<Rightarrow> string \<Rightarrow> bool" where
  "Contains [] sub = (sub = [])"
| "Contains (c # cs) sub = (HasPrefix (c # cs) sub \<or> Contains cs sub)"

text \<open>ASCII white space: tab, line feed, vertical tab, form feed, carriage return, space.\<close>

definition is_space :: "char \<Rightarrow> bool" where
  "is_space c = (c \<in> set [CHR 0x09, CHR 0x0A, CHR 0x0B, CHR 0x0C, CHR 0x0D, CHR '' ''])"

definition TrimSpace :: "string \<Rightarrow> string" where
  "TrimSpace s = rev (dropWhile is_space (rev (dropWhile is_space s)))"

text \<open>\<open>strings.Join\<close>.\<close>

fun Join :: "string list \<Rightarrow> string \<Rightarrow> string" where
  "Join [] sep = []"
| "Join [x] sep = x"
| "Join (x # y # ys) sep = x @ sep @ Join (y # ys) sep"


text \<open>
  \<open>strings.Fields\<close>: the maximal runs of non-space characters.  \<open>cur\<close> is the
  field being read.
\<close>

fun fields_aux :: "string \<Rightarrow> string \<Rightarrow> string list" where
  "fields_aux cur [] = (if cur = [] then [] else [cur])"
| "fields_aux cur (c # cs) =
     (if is_space c then (if cur = [] then fields_aux [] cs else cur # fields_aux [] cs)
      else fields_aux (cur @ [c]) cs)"

definition Fields :: "string \<Rightarrow> string list" where
  "Fields s = fields_aux [] s"

text \<open>
  \<open>strings.Split\<close> with a non-empty separator: cut at each occurrence, left to right,
  occurrences not overlapping.  With the empty separator Go cuts after every character.
\<close>

function split_aux :: "string \<Rightarrow> string \<Rightarrow> string \<Rightarrow> string list" where
  "split_aux cur s sep =
     (if s = [] then [cur]
      else if sep \<noteq> [] \<and> HasPrefix s sep then cur # split_aux [] (drop (length sep) s) sep
      else split_aux (cur @ [hd s]) (tl s) sep)"
  by pat_completeness auto
termination
  by (relation "measure (\<lambda>(cur, s, sep). length s)") auto

declare split_aux.simps [simp del]

definition Split :: "string \<Rightarrow> string \<Rightarrow> string list" where
  "Split s sep = (if sep = [] then map (\<lambda>c. [c]) s else split_aux [] s sep)"

text \<open>\<open>strings.ReplaceAll\<close> of one character by another.\<close>

definition ReplaceAll_char :: "string \<Rightarrow> char \<Rightarrow> char \<Rightarrow> string" where
  "ReplaceAll_char s old new = map (\<lambda>c. if c = old then new else c) s"

text \<open>
  \<open>strings.Title\<close> on ASCII: a letter is upper-cased when the character before it is a
  separator (anything but a letter, a digit or an underscore); the start counts as one.
\<close>

definition is_upper :: "char \<Rightarrow> bool" where
  "is_upper c = (c \<in> set upper_letters)"

definition is_lower :: "char \<Rightarrow> bool" where
  "is_lower c = (c \<in> set lower_letters)"

definition is_digit :: "char \<Rightarrow> bool" where
  "is_digit c = (c \<in> set ''0123456789'')"

definition isSeparator :: "char \<Rightarrow> bool" where
  "isSeparator c = (\<not> (is_upper c \<or> is_lower c \<or> is_digit c \<or> c = CHR ''_''))"

fun title_aux :: "char \<Rightarrow> string \<Rightarrow> string" where
  "title_aux prev [] = []"
| "title_aux prev (c # cs) = (if isSeparator prev then upper_char c else c) # title_aux c cs"

definition Title :: "string \<Rightarrow> string" where
  "Title s = title_aux (CHR '' '') s"

text \<open>\<open>strings.TrimSuffix\<close> and \<open>strings.Trim\<close> (by a cut set).\<close>

definition TrimSuffix :: "string \<Rightarrow> string \<Rightarrow> string" where
  "TrimSuffix s suf = (if HasSuffix s suf then take (length s - length suf) s else s)"

definition Trim :: "string \<Rightarrow> string \<Rightarrow> string" where
  "Trim s cutset =
     rev (dropWhile (\<lambda>c. c \<in> set cutset) (rev (dropWhile (\<lambda>c. c \<in> set cutset) s)))"

text \<open>\<open>fmt.Sprintf("%d", n)\<close>.\<close>

fun dec_nat :: "nat \<Rightarrow> string" where
  "dec_nat n =
     (if n < 10 then [''0123456789'' ! n] else dec_nat (n div 10) @ [''0123456789'' ! (n mod 10)])"

declare dec_nat.simps [simp del]

definition dec_int :: "int \<Rightarrow> string" where
  "dec_int i = (if i < 0 then CHR ''-'' # dec_nat (nat (- i)) else dec_nat (nat i))"


section \<open>Naming helpers (strings.go)\<close>

text \<open>
  \<open>matchFirstCap.ReplaceAllString(str, "${1}_${2}")\<close> for the pattern
  \<open>(.)([A-Z][a-z]+)\<close>: scanning from the left, a character other than a line feed that
  is followed by an upper-case letter and at least one lower-case letter starts a match,
  which runs to the end of the lower-case run; the scan goes on after the match.
\<close>

function (sequential) replaceFirstCap :: "string \<Rightarrow> string" where
  "replaceFirstCap (c # u # l # rest) =
     (if c \<noteq> CHR 0x0A \<and> is_upper u \<and> is_lower l
      then c # CHR ''_'' # u # l # takeWhile is_lower rest
             @ replaceFirstCap (dropWhile is_lower rest)
      else c # replaceFirstCap (u # l # rest))"
| "replaceFirstCap s = s"
  by pat_completeness auto
termination
  by (relation "measure length") (auto simp: less_Suc_eq_le intro: le_SucI length_dropWhile_le)

text \<open>The same for \<open>matchAllCap\<close>, the pattern \<open>([a-z0-9])([A-Z])\<close>.\<close>

fun replaceAllCap :: "string \<Rightarrow> string" where
  "replaceAllCap (a # b # rest) =
     (if (is_lower a \<or> is_digit a) \<and> is_upper b
      then a # CHR ''_'' # b # replaceAllCap rest
      else a # replaceAllCap (b # rest))"
| "replaceAllCap s = s"

definition toSnakeCase :: "string \<Rightarrow> string" where
  "toSnakeCase str = ToLower (replaceAllCap (replaceFirstCap str))"

definition toPascalCase :: "string \<Rightarrow> string" where
  "toPascalCase str =
    (if \<not> Contains str ''_'' \<and> \<not> Contains str ''-'' \<and> \<not> Contains str '' ''
     then (case str of [] \<Rightarrow> str | c # cs \<Rightarrow> ToUpper_byte c @ cs)
     else
       let str1 = ReplaceAll_char (ReplaceAll_char str (CHR ''_'') (CHR '' '')) (CHR ''-'') (CHR '' '');
           words = Fields str1
       in concat (map (\<lambda>w. case w of [] \<Rightarrow> [] | c # cs \<Rightarrow> ToUpper_byte c @ ToLower cs) words))"

definition toConstantCase :: "string \<Rightarrow> string" where
  "toConstantCase str = ToUpper (toSnakeCase str)"

definition irregulars :: "(string \<times> string) list" where
  "irregulars =
    [(''children'', ''child''), (''people'', ''person''), (''men'', ''man''),
     (''women'', ''woman''), (''feet'', ''foot''), (''teeth'', ''tooth''),
     (''geese'', ''goose''), (''mice'', ''mouse''), (''dice'', ''die'')]"

definition singularize :: "string \<Rightarrow> string" where
  "singularize word =
    (if length word \<le> 1 then word
     else
       let lower = ToLower word in
       case map_of irregulars lower of
         Some singular \<Rightarrow>
           (if ToUpper word = word then ToUpper singular
            else if Title word = word then Title singular
            else singular)
       | None \<Rightarrow>
           if HasSuffix lower ''ies'' \<and> length word > 3 then take (length word - 3) word @ ''y''
           else if HasSuffix lower ''ves'' \<and> length word > 3 then take (length word - 3) word @ ''fe''
           else if HasSuffix lower ''ses'' \<and> length word > 3 then take (length word - 2) word
           else if HasSuffix lower ''es'' \<and> length word > 2 \<and>
                   (let beforeEs = take (length word - 2) word;
                        lastChar = ToLower_byte (last beforeEs)
                    in lastChar = ''x'' \<or> lastChar = ''s'' \<or> lastChar = ''z'' \<or>
                       HasSuffix (ToLower beforeEs) ''ch'' \<or> HasSuffix (ToLower beforeEs) ''sh'')
                then take (length word - 2) word
           else if HasSuffix lower ''s'' \<and> length word > 1 then take (length word - 1) word
           else word)"

definition crystalModuleName :: "string \<Rightarrow> string" where
  "crystalModuleName name =
    (if name = [] then ''Db''
     else
       let parts = (if Contains name ''::'' then Split name ''::''
                    else if Contains name ''.'' then Split name ''.''
                    else [name])
       in Join (map toPascalCase parts) ''::'')"


section \<open>The request (plugin.GenerateRequest)\<close>

text \<open>
  The protobuf messages the generator reads.  A singular sub-message the code tests for
  \<open>nil\<close> is an \<open>option\<close>: a column's \<open>Type\<close>, \<open>Table\<close> and \<open>EmbedTable\<close>
  (each reduced to the \<open>Name\<close> the code reads from it), a parameter's \<open>Column\<close>,
  the request's \<open>Catalog\<close>.  \<open>Settings.Engine\<close> and a table's \<open>Rel\<close> are read
  without a test and are plain fields.
\<close>

record Column =
  Column_Name :: string
  Column_NotNull :: bool
  Column_IsArray :: bool
  Column_Type :: "string option"
  Column_IsSqlcSlice :: bool
  Column_Table :: "string option"
  Column_TableAlias :: string
  Column_EmbedTable :: "string option"

record Parameter =
  Parameter_Number :: int
  Parameter_Column :: "Column option"

record Query =
  Query_Name :: string
  Query_Text :: string
  Query_Cmd :: string
  Query_Columns :: "Column list"
  Query_Params :: "Parameter list"
  Query_Comments :: "string list"

record Table =
  Rel_Name :: string
  Rel_Schema :: string
  Table_Columns :: "Column list"

record Schema =
  Schema_Name :: string
  Schema_Tables :: "Table list"

record GenerateRequest =
  Engine :: string
  Catalog :: "Schema list option"
  Queries :: "Query list"

record GeneratorOptions =
  EmitJSONTags :: bool
  EmitDBTags :: bool
  EmitResultStructPointers :: bool
  GenerateConnectionManager :: bool
  GenerateRepositories :: bool
  EmitBooleanQuestionGetters :: bool

record Generator =
  req :: GenerateRequest
  pkg :: string
  options :: GeneratorOptions
  signatureToStruct :: "string \<rightharpoonup> string"

definition NewGenerator :: "GenerateRequest \<Rightarrow> string \<Rightarrow> GeneratorOptions \<Rightarrow> Generator" where
  "NewGenerator r p opts = \<lparr>req = r, pkg = p, options = opts, signatureToStruct = Map.empty\<rparr>"


section \<open>Type mapping (types.go)\<close>

definition postgresType :: "string \<Rightarrow> string" where
  "postgresType sqlType =
    (if sqlType \<in> set [''int8'', ''bigint'', ''bigserial''] then ''Int64''
     else if sqlType \<in> set [''int4'', ''int'', ''integer'', ''serial''] then ''Int32''
     else if sqlType \<in> set [''int2'', ''smallint'', ''smallserial''] then ''Int16''
     else if sqlType \<in> set [''numeric'', ''decimal''] then ''Float64''
     else if sqlType \<in> set [''real'', ''float4''] then ''Float32''
     else if sqlType \<in> set [''float8'', ''double precision''] then ''Float64''
     else if sqlType \<in> set [''bool'', ''boolean''] then ''Bool''
     else if sqlType \<in> set [''text'', ''varchar'', ''char'', ''bpchar'', ''citext'', ''name''] then ''String''
     else if sqlType \<in> set [''timestamp'', ''timestamptz'', ''date'', ''time'', ''timetz''] then ''Time''
     else if sqlType \<in> set [''interval''] then ''Time::Span''
     else if sqlType \<in> set [''uuid''] then ''String''
     else if sqlType \<in> set [''json'', ''jsonb''] then ''JSON::Any''
     else if sqlType \<in> set [''bytea''] then ''Bytes''
     else if sqlType \<in> set [''inet'', ''cidr'', ''macaddr'', ''macaddr8''] then ''String''
     else if sqlType \<in> set [''point'', ''line'', ''lseg'', ''box'', ''path'', ''polygon'', ''circle''] then ''String''
     else if sqlType \<in> set [''money''] then ''Float64''
     else if sqlType \<in> set [''bit'', ''bit varying'', ''varbit''] then ''String''
     else if sqlType \<in> set [''int4range'', ''int8range'', ''numrange'', ''tsrange'', ''tstzrange'', ''daterange''] then ''String''
     else if sqlType \<in> set [''xml''] then ''String''
     else if sqlType \<in> set [''void''] then ''Nil''
     else ''String'')"

definition mysqlType :: "string \<Rightarrow> string" where
  "mysqlType sqlType =
    (if sqlType \<in> set [''bigint''] then ''Int64''
     else if sqlType \<in> set [''int'', ''integer'', ''mediumint''] then ''Int32''
     else if sqlType \<in> set [''smallint''] then ''Int16''
     else if sqlType \<in> set [''tinyint''] then ''Int8''
     else if sqlType \<in> set [''decimal'', ''numeric''] then ''Float64''
     else if sqlType \<in> set [''float''] then ''Float32''
     else if sqlType \<in> set [''double'', ''double precision'', ''real''] then ''Float64''
     else if sqlType \<in> set [''bit'', ''bool'', ''boolean''] then ''Bool''
     else if sqlType \<in> set [''char'', ''varchar'', ''text'', ''tinytext'', ''mediumtext'', ''longtext''] then ''String''
     else if sqlType \<in> set [''datetime'', ''timestamp''] then ''Time''
     else if sqlType \<in> set [''date''] then ''Time''
     else if sqlType \<in> set [''time''] then ''Time::Span''
     else if sqlType \<in> set [''year''] then ''Int32''
     else if sqlType \<in> set [''json''] then ''JSON::Any''
     else if sqlType \<in> set [''binary'', ''varbinary'', ''blob'', ''tinyblob'', ''mediumblob'', ''longblob''] then ''Bytes''
     else if sqlType \<in> set [''enum'', ''set''] then ''String''
     else ''String'')"

text \<open>
  \<open>normalizeSQLiteType\<close>: cut at the first \<open>(\<close> (\<open>strings.Index\<close> and the slice
  \<open>sqlType[:idx]\<close>; without a \<open>(\<close> the whole string stays), trim, lower-case.
\<close>

definition normalizeSQLiteType :: "string \<Rightarrow> string" where
  "normalizeSQLiteType sqlType = ToLower (TrimSpace (takeWhile (\<lambda>c. c \<noteq> CHR ''('') sqlType))"

definition isIntegerType :: "string \<Rightarrow> bool" where
  "isIntegerType sqlType =
    (Contains sqlType ''int'' \<or> sqlType = ''integer'' \<or> sqlType = ''tinyint'' \<or>
     sqlType = ''smallint'' \<or> sqlType = ''mediumint'' \<or> sqlType = ''bigint'' \<or>
     sqlType = ''int2'' \<or> sqlType = ''int8'')"

definition isRealType :: "string \<Rightarrow> bool" where
  "isRealType sqlType =
    (sqlType = ''real'' \<or> sqlType = ''double'' \<or> sqlType = ''double precision'' \<or>
     sqlType = ''float'')"

definition isTextType :: "string \<Rightarrow> bool" where
  "isTextType sqlType =
    (Contains sqlType ''char'' \<or> Contains sqlType ''clob'' \<or> Contains sqlType ''text'' \<or>
     sqlType = ''varchar'' \<or> sqlType = ''varying character'' \<or> sqlType = ''nchar'' \<or>
     sqlType = ''native character'' \<or> sqlType = ''nvarchar'')"

definition isBlobType :: "string \<Rightarrow> bool" where
  "isBlobType sqlType = (sqlType = ''blob'' \<or> sqlType = '''')"

definition isNumericType :: "string \<Rightarrow> bool" where
  "isNumericType sqlType =
    (sqlType = ''numeric'' \<or> sqlType = ''decimal'' \<or> Contains sqlType ''decimal'')"

definition isDateTimeType :: "string \<Rightarrow> bool" where
  "isDateTimeType sqlType =
    (sqlType = ''date'' \<or> sqlType = ''datetime'' \<or> sqlType = ''timestamp'' \<or>
     sqlType = ''time'')"

definition sqliteType :: "string \<Rightarrow> string" where
  "sqliteType sqlType0 =
    (let sqlType = normalizeSQLiteType sqlType0 in
     if isIntegerType sqlType then ''Int64''
     else if isRealType sqlType then ''Float64''
     else if isTextType sqlType then ''String''
     else if isBlobType sqlType then ''Bytes''
     else if isNumericType sqlType then ''Float64''
     else if sqlType = ''boolean'' \<or> sqlType = ''bool'' then ''Bool''
     else if isDateTimeType sqlType then ''Time''
     else ''String'')"


section \<open>The generator's type functions (generator.go)\<close>

text \<open>The local \<open>typeName\<close> of \<open>baseType\<close>: empty without a type, else lower-cased.\<close>

definition typeName :: "Column \<Rightarrow> string" where
  "typeName col = (case Column_Type col of None \<Rightarrow> [] | Some n \<Rightarrow> ToLower n)"

definition baseType :: "Generator \<Rightarrow> Column \<Rightarrow> string" where
  "baseType g col =
    (if Engine (req g) = ''postgresql'' then postgresType (typeName col)
     else if Engine (req g) = ''mysql'' then mysqlType (typeName col)
     else if Engine (req g) = ''sqlite'' then sqliteType (typeName col)
     else postgresType (typeName col))"

text \<open>
  The type names a dialect recognises: the case labels of \<open>postgresType\<close> and of
  \<open>mysqlType\<close>, and for SQLite the names one of the affinity tests accepts.
\<close>

definition postgres_labels :: "string list" where
  "postgres_labels =
    [''int8'', ''bigint'', ''bigserial'', ''int4'', ''int'', ''integer'', ''serial'',
     ''int2'', ''smallint'', ''smallserial'', ''numeric'', ''decimal'', ''real'', ''float4'',
     ''float8'', ''double precision'', ''bool'', ''boolean'',
     ''text'', ''varchar'', ''char'', ''bpchar'', ''citext'', ''name'',
     ''timestamp'', ''timestamptz'', ''date'', ''time'', ''timetz'', ''interval'', ''uuid'',
     ''json'', ''jsonb'', ''bytea'', ''inet'', ''cidr'', ''macaddr'', ''macaddr8'',
     ''point'', ''line'', ''lseg'', ''box'', ''path'', ''polygon'', ''circle'', ''money'',
     ''bit'', ''bit varying'', ''varbit'',
     ''int4range'', ''int8range'', ''numrange'', ''tsrange'', ''tstzrange'', ''daterange'',
     ''xml'', ''void'']"

definition mysql_labels :: "string list" where
  "mysql_labels =
    [''bigint'', ''int'', ''integer'', ''mediumint'', ''smallint'', ''tinyint'',
     ''decimal'', ''numeric'', ''float'', ''double'', ''double precision'', ''real'',
     ''bit'', ''bool'', ''boolean'',
     ''char'', ''varchar'', ''text'', ''tinytext'', ''mediumtext'', ''longtext'',
     ''datetime'', ''timestamp'', ''date'', ''time'', ''year'', ''json'',
     ''binary'', ''varbinary'', ''blob'', ''tinyblob'', ''mediumblob'', ''longblob'',
     ''enum'', ''set'']"

definition sqlite_recognized :: "string \<Rightarrow> bool" where
  "sqlite_recognized sqlType0 =
    (let sqlType = normalizeSQLiteType sqlType0 in
     isIntegerType sqlType \<or> isRealType sqlType \<or> isTextType sqlType \<or> isBlobType sqlType \<or>
     isNumericType sqlType \<or> sqlType = ''boolean'' \<or> sqlType = ''bool'' \<or> isDateTimeType sqlType)"

definition recognized :: "string \<Rightarrow> string \<Rightarrow> bool" where
  "recognized engine sqlType =
    (if engine = ''mysql'' then sqlType \<in> set mysql_labels
     else if engine = ''sqlite'' then sqlite_recognized sqlType
     else sqlType \<in> set postgres_labels)"

definition crystalType :: "Generator \<Rightarrow> Column \<Rightarrow> string" where
  "crystalType g col =
    (let typ = baseType g col;
         typ = (if Column_IsArray col then ''Array('' @ typ @ '')'' else typ)
     in if \<not> Column_NotNull col \<and> \<not> Column_IsArray col
        then (if EmitResultStructPointers (options g) then typ @ ''*'' else typ @ ''?'')
        else typ)"


section \<open>Template data and the models template (generator.go, templates.go)\<close>

record crystalField =
  Field_Name :: string
  Field_DBName :: string
  Field_JSONName :: string
  Field_Type :: string

record crystalStruct =
  Struct_Name :: string
  Struct_TableName :: string
  Struct_Fields :: "crystalField list"

record crystalParam =
  Param_Name :: string
  Param_Type :: string
  Param_Position :: int

record sqlcSliceParam =
  Slice_Name :: string
  Slice_Placeholder :: string

record crystalQuery =
  CQ_Name :: string
  CQ_SQL :: string
  CQ_SourceName :: string
  CQ_Cmd :: string
  CQ_Comments :: "string list"
  CQ_ConstantName :: string
  CQ_Params :: "crystalParam list"
  CQ_ReturnType :: string
  CQ_ResultStruct :: string
  CQ_SingleColumnType :: string
  CQ_UsesSQLCSlice :: bool
  CQ_SliceParams :: "sqlcSliceParam list"

text \<open>
  Go's \<open>%q\<close> (\<open>strconv.Quote\<close>) on ASCII: the text between double quotes, with the
  quote, the backslash and the control characters escaped.  Bytes from \<open>0x80\<close> on are
  kept, as Go keeps the printable characters they encode.
\<close>

definition hex_digit :: "nat \<Rightarrow> char" where
  "hex_digit n = ''0123456789abcdef'' ! n"

definition quote_char :: "char \<Rightarrow> string" where
  "quote_char c =
    (if c = CHR 0x22 then [CHR 0x5C, CHR 0x22]
     else if c = CHR 0x5C then [CHR 0x5C, CHR 0x5C]
     else if c = CHR 0x07 then [CHR 0x5C, CHR ''a'']
     else if c = CHR 0x08 then [CHR 0x5C, CHR ''b'']
     else if c = CHR 0x0C then [CHR 0x5C, CHR ''f'']
     else if c = CHR 0x0A then [CHR 0x5C, CHR ''n'']
     else if c = CHR 0x0D then [CHR 0x5C, CHR ''r'']
     else if c = CHR 0x09 then [CHR 0x5C, CHR ''t'']
     else if c = CHR 0x0B then [CHR 0x5C, CHR ''v'']
     else if (of_char c :: nat) < 32 \<or> (of_char c :: nat) = 127
       then [CHR 0x5C, CHR ''x'', hex_digit ((of_char c :: nat) div 16),
             hex_digit ((of_char c :: nat) mod 16)]
     else [c])"

definition go_quote :: "string \<Rightarrow> string" where
  "go_quote s = CHR 0x22 # concat (map quote_char s) @ [CHR 0x22]"

definition isBooleanType :: "string \<Rightarrow> bool" where
  "isBooleanType typ = (typ = ''Bool'' \<or> typ = ''Bool?'')"

text \<open>
  \<open>modelsTemplateStr\<close>, executed.  Every action that opens with \<open>{{-\<close> removes the
  white space before it, so each emitted line starts with the line feed and the indentation
  that precede it in the template; \<open>and $.EmitJSONTags .JSONName\<close> is true when the flag
  is set and the name is not empty.
\<close>

definition indent4 :: string where
  "indent4 = CHR 0x0A # ''    ''"

definition fieldText :: "GeneratorOptions \<Rightarrow> crystalField \<Rightarrow> string" where
  "fieldText opts f =
    (if EmitJSONTags opts \<and> Field_JSONName f \<noteq> []
     then indent4 @ ''@[JSON::Field(key: '' @ go_quote (Field_JSONName f) @ '')]'' else [])
    @ (if EmitDBTags opts \<and> Field_DBName f \<noteq> Field_Name f
       then indent4 @ ''@[DB::Field(key: '' @ go_quote (Field_DBName f) @ '')]'' else [])
    @ (if EmitBooleanQuestionGetters opts \<and> isBooleanType (Field_Type f)
       then indent4 @ ''getter? '' @ Field_Name f @ '' : '' @ Field_Type f
       else indent4 @ ''getter '' @ Field_Name f @ '' : '' @ Field_Type f)"

definition structText :: "GeneratorOptions \<Rightarrow> crystalStruct \<Rightarrow> string" where
  "structText opts cs =
    CHR 0x0A # ''  struct '' @ Struct_Name cs
    @ indent4 @ ''include DB::Serializable''
    @ (if EmitJSONTags opts then indent4 @ ''include JSON::Serializable'' else [])
    @ concat (map (fieldText opts) (Struct_Fields cs))
    @ CHR 0x0A # ''  end'' @ [CHR 0x0A]"

definition modelsText :: "string \<Rightarrow> GeneratorOptions \<Rightarrow> crystalStruct list \<Rightarrow> string" where
  "modelsText package opts structList =
    ''module '' @ crystalModuleName package
    @ concat (map (structText opts) structList)
    @ ''end'' @ [CHR 0x0A]"


section \<open>Sorting\<close>

text \<open>
  \<open>sort.SliceStable\<close> (and \<open>sort.Slice\<close> on keys that are all different) with the
  comparison \<open>lt\<close>: a stable insertion sort (an element goes behind the ones it is not
  less than).  \<open>str_less\<close> is Go's \<open><\<close> on strings,
  byte by byte.
\<close>

fun insert_by :: "('a \<Rightarrow> 'a \<Rightarrow> bool) \<Rightarrow> 'a \<Rightarrow> 'a list \<Rightarrow> 'a list" where
  "insert_by lt x [] = [x]"
| "insert_by lt x (y # ys) = (if lt x y then x # y # ys else y # insert_by lt x ys)"

definition sort_by :: "('a \<Rightarrow> 'a \<Rightarrow> bool) \<Rightarrow> 'a list \<Rightarrow> 'a list" where
  "sort_by lt xs = foldl (\<lambda>acc x. insert_by lt x acc) [] xs"

fun str_less :: "string \<Rightarrow> string \<Rightarrow> bool" where
  "str_less [] [] = False"
| "str_less [] (b # bs) = True"
| "str_less (a # as) [] = False"
| "str_less (a # as) (b # bs) =
     (if a = b then str_less as bs else (of_char a :: nat) < of_char b)"


section \<open>generateModels\<close>

definition columnField :: "Generator \<Rightarrow> Column \<Rightarrow> crystalField" where
  "columnField g col =
    \<lparr>Field_Name = toSnakeCase (Column_Name col),
     Field_DBName = Column_Name col,
     Field_JSONName = (if EmitJSONTags (options g) then Column_Name col else []),
     Field_Type = crystalType g col\<rparr>"

text \<open>The signature string that \<open>fieldSig\<close> accumulates, one \<open>name:type;\<close> per field.\<close>

definition fieldSig :: "crystalField list \<Rightarrow> string" where
  "fieldSig fs = concat (map (\<lambda>f. Field_Name f @ '':'' @ Field_Type f @ '';'') fs)"

text \<open>
  The three maps of \<open>generateModels\<close>: \<open>structs\<close> (by struct name, kept as an
  association list), the local \<open>fieldSignatures\<close>, and the generator with its
  \<open>signatureToStruct\<close>.
\<close>

record models_state =
  structs :: "(string \<times> crystalStruct) list"
  fieldSignatures :: "string \<rightharpoonup> string"
  gen :: Generator

fun put :: "'k \<Rightarrow> 'v \<Rightarrow> ('k \<times> 'v) list \<Rightarrow> ('k \<times> 'v) list" where
  "put k v [] = [(k, v)]"
| "put k v ((k', v') # xs) = (if k = k' then (k, v) # xs else (k', v') # put k v xs)"

definition register :: "string \<Rightarrow> crystalStruct \<Rightarrow> models_state \<Rightarrow> models_state" where
  "register sig cs st =
    st\<lparr>structs := put (Struct_Name cs) cs (structs st),
       fieldSignatures := (fieldSignatures st)(sig \<mapsto> Struct_Name cs),
       gen := (gen st)\<lparr>signatureToStruct := (signatureToStruct (gen st))(sig \<mapsto> Struct_Name cs)\<rparr>\<rparr>"

definition skipSchema :: "Schema \<Rightarrow> bool" where
  "skipSchema schema =
    (Schema_Name schema = ''information_schema'' \<or> Schema_Name schema = ''pg_catalog'')"

definition skipTable :: "Table \<Rightarrow> bool" where
  "skipTable table =
    (HasPrefix (Rel_Name table) ''pg_'' \<or> HasPrefix (Rel_Name table) ''sql_'' \<or>
     Rel_Schema table = ''information_schema'' \<or> Rel_Schema table = ''pg_catalog'')"

definition tableStruct :: "Generator \<Rightarrow> Table \<Rightarrow> crystalStruct" where
  "tableStruct g table =
    \<lparr>Struct_Name = toPascalCase (singularize (Rel_Name table)),
     Struct_TableName = Rel_Name table,
     Struct_Fields = map (columnField g) (Table_Columns table)\<rparr>"

definition addTable :: "models_state \<Rightarrow> Table \<Rightarrow> models_state" where
  "addTable st table =
    (if skipTable table then st
     else
       let cs = tableStruct (gen st) table in
       if Struct_Fields cs \<noteq> [] then register (fieldSig (Struct_Fields cs)) cs st else st)"

definition addSchema :: "models_state \<Rightarrow> Schema \<Rightarrow> models_state" where
  "addSchema st schema =
    (if skipSchema schema then st else foldl addTable st (Schema_Tables schema))"

text \<open>
  Grouping the result columns of a query: \<open>tableColumns\<close> (a map from a table name or alias
  to its columns, here an association list in order of first appearance),
  \<open>standaloneColumns\<close> and \<open>hasEmbeds\<close>.
\<close>

fun appendTo :: "string \<Rightarrow> Column \<Rightarrow> (string \<times> Column list) list \<Rightarrow> (string \<times> Column list) list" where
  "appendTo k col [] = [(k, [col])]"
| "appendTo k col ((k', cols) # xs) =
     (if k = k' then (k', cols @ [col]) # xs else (k', cols) # appendTo k col xs)"

definition groupStep ::
  "(string \<times> Column list) list \<times> Column list \<times> bool \<Rightarrow> Column
    \<Rightarrow> (string \<times> Column list) list \<times> Column list \<times> bool" where
  "groupStep acc col =
    (case acc of (tableColumns, standaloneColumns, hasEmbeds) \<Rightarrow>
      (case Column_EmbedTable col of
         Some t \<Rightarrow> (appendTo t col tableColumns, standaloneColumns, True)
       | None \<Rightarrow>
          (case Column_Table col of
             Some n \<Rightarrow>
               if n \<noteq> [] then
                 (appendTo (if Column_TableAlias col \<noteq> [] then Column_TableAlias col else n) col
                    tableColumns, standaloneColumns, hasEmbeds)
               else (tableColumns, standaloneColumns @ [col], hasEmbeds)
           | None \<Rightarrow> (tableColumns, standaloneColumns @ [col], hasEmbeds))))"

definition groupColumns :: "Column list \<Rightarrow> (string \<times> Column list) list \<times> Column list \<times> bool" where
  "groupColumns cols = foldl groupStep ([], [], False) cols"

text \<open>The search for the struct name of an embedded table through the catalog.\<close>

definition findInSchema :: "string \<Rightarrow> Schema \<Rightarrow> string" where
  "findInSchema tableName schema =
    (case find (\<lambda>t. Rel_Name t = tableName) (Schema_Tables schema) of
       Some t \<Rightarrow> toPascalCase (singularize (Rel_Name t))
     | None \<Rightarrow> [])"

fun findStructName :: "string \<Rightarrow> Schema list \<Rightarrow> string" where
  "findStructName tableName [] = []"
| "findStructName tableName (schema # rest) =
     (let structName = findInSchema tableName schema
      in if structName \<noteq> [] then structName else findStructName tableName rest)"

definition embedStructName :: "Generator \<Rightarrow> string \<Rightarrow> string" where
  "embedStructName g tableName =
    (let structName = (case Catalog (req g) of
                         Some schemas \<Rightarrow> findStructName tableName schemas
                       | None \<Rightarrow> [])
     in if structName = [] then toPascalCase (singularize tableName) else structName)"

definition embedFieldType :: "Generator \<Rightarrow> Query \<Rightarrow> string \<Rightarrow> string" where
  "embedFieldType g query tableName =
    (let structName = embedStructName g tableName;
         nullable = (Contains (ToUpper (Query_Text query)) ''LEFT JOIN'' \<or>
                     Contains (ToUpper (Query_Text query)) ''RIGHT JOIN'')
     in if nullable then
          (if Contains (ToUpper (Query_Text query)) ''LEFT JOIN'' then
             (if \<not> Contains (ToUpper (Query_Text query)) (''FROM '' @ ToUpper tableName)
              then structName @ ''?'' else structName)
           else structName)
        else structName)"

definition embedFields :: "Generator \<Rightarrow> Query \<Rightarrow> string \<Rightarrow> Column list \<Rightarrow> crystalField list" where
  "embedFields g query tableName cols =
    (if cols \<noteq> [] \<and> Column_EmbedTable (hd cols) \<noteq> None then
       [\<lparr>Field_Name = toSnakeCase (singularize tableName),
         Field_DBName = toSnakeCase (singularize tableName),
         Field_JSONName = [],
         Field_Type = embedFieldType g query tableName\<rparr>]
     else [])"

text \<open>
  The fields of a query's struct.  Go visits the keys of the map \<open>tableColumns\<close> in an
  order of its own choosing, different from run to run: \<open>visit\<close> gives, for the keys in
  order of first appearance, the order of this visit.
\<close>

definition queryFields :: "(string list \<Rightarrow> string list) \<Rightarrow> Generator \<Rightarrow> Query \<Rightarrow> crystalField list" where
  "queryFields visit g query =
    (case groupColumns (Query_Columns query) of (tableColumns, standaloneColumns, hasEmbeds) \<Rightarrow>
       if hasEmbeds then
         concat (map (\<lambda>tableName. case map_of tableColumns tableName of
                                     Some cols \<Rightarrow> embedFields g query tableName cols
                                   | None \<Rightarrow> [])
                     (visit (map fst tableColumns)))
         @ map (columnField g) standaloneColumns
       else map (columnField g) (Query_Columns query))"

definition queryStructName :: "Query \<Rightarrow> string" where
  "queryStructName query =
    (let structName = toPascalCase (Query_Name query)
     in if Query_Cmd query = '':one'' \<or> Query_Cmd query = '':many''
        then structName @ ''Row'' else structName)"

definition addQuery :: "(string list \<Rightarrow> string list) \<Rightarrow> models_state \<Rightarrow> Query \<Rightarrow> models_state" where
  "addQuery visit st query =
    (if Query_Columns query = [] then st
     else if Query_Cmd query \<in> set ['':exec'', '':execresult'', '':execrows'', '':copyfrom''] then st
     else
       let fs = queryFields visit (gen st) query;
           signature = fieldSig fs
       in if fieldSignatures st signature \<noteq> None then st
          else register signature
                 \<lparr>Struct_Name = queryStructName query, Struct_TableName = [],
                  Struct_Fields = fs\<rparr> st)"

text \<open>
  The struct that \<open>addQuery\<close> registers for a query, when it registers one: the struct
  built from the query.
\<close>

definition queryStruct :: "(string list \<Rightarrow> string list) \<Rightarrow> Generator \<Rightarrow> Query \<Rightarrow> crystalStruct" where
  "queryStruct visit g query =
    \<lparr>Struct_Name = queryStructName query, Struct_TableName = [],
     Struct_Fields = queryFields visit g query\<rparr>"

text \<open>The second pass; \<open>visit i\<close> is the order Go takes at the \<open>i\<close>-th query.\<close>

fun queryPass ::
  "(nat \<Rightarrow> string list \<Rightarrow> string list) \<Rightarrow> nat \<Rightarrow> models_state \<Rightarrow> Query list \<Rightarrow> models_state" where
  "queryPass visit i st [] = st"
| "queryPass visit i st (query # rest) = queryPass visit (Suc i) (addQuery (visit i) st query) rest"

definition sortStructs :: "crystalStruct list \<Rightarrow> crystalStruct list" where
  "sortStructs structList = sort_by (\<lambda>a b. str_less (Struct_Name a) (Struct_Name b)) structList"

definition modelsState :: "(nat \<Rightarrow> string list \<Rightarrow> string list) \<Rightarrow> Generator \<Rightarrow> Schema list \<Rightarrow> models_state" where
  "modelsState visit g schemas =
    queryPass visit 0
      (foldl addSchema \<lparr>structs = [], fieldSignatures = Map.empty, gen = g\<rparr> schemas)
      (Queries (req g))"

text \<open>\<open>structList\<close>: the structs of the models file, sorted by name.\<close>

definition emittedStructs ::
  "(nat \<Rightarrow> string list \<Rightarrow> string list) \<Rightarrow> Generator \<Rightarrow> Schema list \<Rightarrow> crystalStruct list" where
  "emittedStructs visit g schemas = sortStructs (map snd (structs (modelsState visit g schemas)))"

text \<open>
  \<open>generateModels\<close>: the generator afterwards and the file (name and contents), if any.
  Without a catalog the code dereferences \<open>nil\<close>: the result is \<open>None\<close>.
\<close>

definition generateModels ::
  "(nat \<Rightarrow> string list \<Rightarrow> string list) \<Rightarrow> Generator \<Rightarrow> (Generator \<times> (string \<times> string) option) option" where
  "generateModels visit g =
    (case Catalog (req g) of
       None \<Rightarrow> None
     | Some schemas \<Rightarrow>
         let st = modelsState visit g schemas in
         if structs st = [] then Some (gen st, None)
         else Some (gen st,
                    Some (''models.cr'',
                          modelsText (pkg g) (options g) (emittedStructs visit g schemas))))"

text \<open>The tables the first pass makes a struct of, and the queries with embed markers.\<close>

definition registeredTables :: "Schema list \<Rightarrow> Table list" where
  "registeredTables schemas =
    concat (map (\<lambda>schema. if skipSchema schema then []
                          else filter (\<lambda>table. \<not> skipTable table \<and> Table_Columns table \<noteq> [])
                                 (Schema_Tables schema))
                schemas)"

text \<open>
  Of these tables, the ones whose struct has the field signature \<open>sig\<close>, in the order of
  the catalog (the order in which the first pass takes them).
\<close>

definition tablesWithSignature :: "Generator \<Rightarrow> Schema list \<Rightarrow> string \<Rightarrow> Table list" where
  "tablesWithSignature g schemas sig =
    filter (\<lambda>table. fieldSig (Struct_Fields (tableStruct g table)) = sig) (registeredTables schemas)"

definition hasEmbed :: "Query \<Rightarrow> bool" where
  "hasEmbed query = (\<exists>col \<in> set (Query_Columns query). Column_EmbedTable col \<noteq> None)"

text \<open>
  The first step of \<open>Generate\<close>: models are generated when the request has a catalog with at
  least one schema; the generator goes on to the queries with the \<open>signatureToStruct\<close> it
  has then.
\<close>

definition Generate_models ::
  "(nat \<Rightarrow> string list \<Rightarrow> string list) \<Rightarrow> Generator \<Rightarrow> Generator \<times> (string \<times> string) option" where
  "Generate_models visit g =
    (case Catalog (req g) of
       Some schemas \<Rightarrow>
         if schemas \<noteq> [] then
           (case generateModels visit g of Some r \<Rightarrow> r | None \<Rightarrow> (g, None))
         else (g, None)
     | None \<Rightarrow> (g, None))"

definition getStructNameForQuery :: "Generator \<Rightarrow> Query \<Rightarrow> string" where
  "getStructNameForQuery g query =
    (if length (Query_Columns query) \<le> 1 then []
     else
       let signature = fieldSig (map (columnField g) (Query_Columns query))
       in case signatureToStruct g signature of
            Some structName \<Rightarrow> structName
          | None \<Rightarrow> queryStructName query)"


section \<open>generateQueries and buildCrystalQuery\<close>

text \<open>
  The comparison both functions hand to \<open>sort.SliceStable\<close>: a parameter whose type ends
  in \<open>?\<close> is optional; required before optional, otherwise by position.
\<close>

definition isOptional :: "crystalParam \<Rightarrow> bool" where
  "isOptional p = HasSuffix (Param_Type p) ''?''"

definition paramLess :: "crystalParam \<Rightarrow> crystalParam \<Rightarrow> bool" where
  "paramLess pi pj =
    (if isOptional pi \<noteq> isOptional pj then \<not> isOptional pi
     else Param_Position pi < Param_Position pj)"

text \<open>
  One parameter of \<open>generateQueries\<close>.  \<open>crystalType\<close> reads the column first: a
  parameter without a column stops the generator (\<open>None\<close>).
\<close>

definition queryParam :: "Generator \<Rightarrow> Parameter \<Rightarrow> crystalParam option" where
  "queryParam g param =
    (case Parameter_Column param of
       None \<Rightarrow> None
     | Some col \<Rightarrow>
         Some \<lparr>Param_Name = (if Column_Name col \<noteq> [] then toSnakeCase (Column_Name col)
                              else ''arg'' @ dec_int (Parameter_Number param)),
               Param_Type = (if Column_IsSqlcSlice col then ''Array('' @ baseType g col @ '')''
                             else crystalType g col),
               Param_Position = Parameter_Number param\<rparr>)"

text \<open>The same in \<open>buildCrystalQuery\<close>, where name and position come from the index.\<close>

definition repoParam :: "Generator \<Rightarrow> nat \<Rightarrow> Parameter \<Rightarrow> crystalParam option" where
  "repoParam g i param =
    (case Parameter_Column param of
       None \<Rightarrow> None
     | Some col \<Rightarrow>
         Some \<lparr>Param_Name = (if Column_Name col \<noteq> [] then toSnakeCase (Column_Name col)
                              else ''arg'' @ dec_int (int i + 1)),
               Param_Type = (if Column_IsSqlcSlice col then ''Array('' @ baseType g col @ '')''
                             else crystalType g col),
               Param_Position = int i + 1\<rparr>)"

definition sliceParamsOf :: "Parameter list \<Rightarrow> crystalParam list \<Rightarrow> sqlcSliceParam list" where
  "sliceParamsOf params ps =
    concat (map (\<lambda>(param, p).
              case Parameter_Column param of
                Some col \<Rightarrow>
                  if Column_IsSqlcSlice col
                  then [\<lparr>Slice_Name = Param_Name p,
                         Slice_Placeholder = ''$'' @ dec_int (Parameter_Number param)\<rparr>]
                  else []
              | None \<Rightarrow> [])
            (zip params ps))"

definition returnType :: "Generator \<Rightarrow> Query \<Rightarrow> string" where
  "returnType g query =
    (if Query_Cmd query = '':one'' then
       (if length (Query_Columns query) = 1 then crystalType g (hd (Query_Columns query))
        else getStructNameForQuery g query) @ ''?''
     else if Query_Cmd query = '':many'' then
       (if length (Query_Columns query) = 1
        then ''Array('' @ crystalType g (hd (Query_Columns query)) @ '')''
        else ''Array('' @ getStructNameForQuery g query @ '')'')
     else if Query_Cmd query = '':exec'' then ''Nil''
     else if Query_Cmd query = '':execresult'' then ''DB::ExecResult''
     else if Query_Cmd query = '':execrows'' then ''Int64''
     else if Query_Cmd query = '':execlastid'' then ''Int64''
     else if Query_Cmd query = '':copyfrom'' then ''Int64''
     else [])"

definition resultStruct :: "Generator \<Rightarrow> Query \<Rightarrow> string" where
  "resultStruct g query =
    (if length (Query_Columns query) > 1 \<and>
        (Query_Cmd query = '':one'' \<or> Query_Cmd query = '':many'')
     then getStructNameForQuery g query else [])"

definition singleColumnType :: "Generator \<Rightarrow> Query \<Rightarrow> string" where
  "singleColumnType g query =
    (if length (Query_Columns query) = 1 \<and>
        (Query_Cmd query = '':one'' \<or> Query_Cmd query = '':many'')
     then crystalType g (hd (Query_Columns query)) else [])"

definition generateQuery :: "Generator \<Rightarrow> Query \<Rightarrow> crystalQuery option" where
  "generateQuery g query =
    (case those (map (queryParam g) (Query_Params query)) of
       None \<Rightarrow> None
     | Some ps \<Rightarrow>
         Some \<lparr>CQ_Name = toSnakeCase (Query_Name query),
               CQ_SQL = Query_Text query,
               CQ_SourceName = Query_Name query,
               CQ_Cmd = Query_Cmd query,
               CQ_Comments = Query_Comments query,
               CQ_ConstantName = toConstantCase (Query_Name query),
               CQ_Params = sort_by paramLess ps,
               CQ_ReturnType = returnType g query,
               CQ_ResultStruct = resultStruct g query,
               CQ_SingleColumnType = singleColumnType g query,
               CQ_UsesSQLCSlice = (sliceParamsOf (Query_Params query) ps \<noteq> []),
               CQ_SliceParams = sliceParamsOf (Query_Params query) ps\<rparr>)"

text \<open>\<open>generateQueries\<close>, up to the data it hands to the queries template.\<close>

definition generateQueries :: "Generator \<Rightarrow> crystalQuery list option" where
  "generateQueries g = those (map (generateQuery g) (Queries (req g)))"

definition buildCrystalQuery :: "Generator \<Rightarrow> Query \<Rightarrow> crystalQuery option" where
  "buildCrystalQuery g query =
    (case those (map (\<lambda>(i, param). repoParam g i param)
                     (zip [0..<length (Query_Params query)] (Query_Params query))) of
       None \<Rightarrow> None
     | Some ps \<Rightarrow>
         Some \<lparr>CQ_Name = toSnakeCase (Query_Name query),
               CQ_SQL = Query_Text query,
               CQ_SourceName = [],
               CQ_Cmd = Query_Cmd query,
               CQ_Comments = Query_Comments query,
               CQ_ConstantName = toConstantCase (Query_Name query),
               CQ_Params = sort_by paramLess ps,
               CQ_ReturnType = returnType g query,
               CQ_ResultStruct = resultStruct g query,
               CQ_SingleColumnType = singleColumnType g query,
               CQ_UsesSQLCSlice = (sliceParamsOf (Query_Params query) ps \<noteq> []),
               CQ_SliceParams = sliceParamsOf (Query_Params query) ps\<rparr>)"


section \<open>Template helpers (templates.go)\<close>

text \<open>\<open>paramsCopy\<close> of \<open>paramNames\<close>, sorted by position, and the names joined.\<close>

definition bindOrder :: "crystalParam list \<Rightarrow> crystalParam list" where
  "bindOrder params = sort_by (\<lambda>pi pj. Param_Position pi < Param_Position pj) params"

definition paramNames :: "crystalParam list \<Rightarrow> string" where
  "paramNames params =
    (if params = [] then [] else Join (map Param_Name (bindOrder params)) '', '')"

definition paramPart :: "crystalParam \<Rightarrow> string" where
  "paramPart p =
    (if isOptional p then Param_Name p @ '' : '' @ Param_Type p @ '' = nil''
     else Param_Name p @ '' : '' @ Param_Type p)"

definition paramList :: "crystalParam list \<Rightarrow> string" where
  "paramList params = (if params = [] then [] else Join (map paramPart params) '', '')"

definition joinComments :: "string list \<Rightarrow> string" where
  "joinComments comments =
    (if comments = [] then [] else Join comments (CHR 0x0A # ''    # ''))"

definition needsSliceExpansion :: "crystalQuery \<Rightarrow> string \<Rightarrow> bool" where
  "needsSliceExpansion query engine =
    (CQ_UsesSQLCSlice query \<and> (engine = ''mysql'' \<or> engine = ''sqlite''))"

text \<open>
  \<open>expandSliceParams\<close>: for each slice parameter, the first parameter of that name, and
  for it the text of the format string (which starts with a line feed).
\<close>

definition expandedNames :: "crystalParam list \<Rightarrow> sqlcSliceParam list \<Rightarrow> string list" where
  "expandedNames params sliceParams =
    concat (map (\<lambda>sp. case find (\<lambda>p. Param_Name p = Slice_Name sp) params of
                         Some p \<Rightarrow> [Param_Name p]
                       | None \<Rightarrow> [])
                sliceParams)"

definition emptyMessage :: "string \<Rightarrow> string" where
  "emptyMessage name = ''slice parameter '' @ [CHR 0x27] @ name @ [CHR 0x27] @ '' cannot be empty''"

definition sliceMarker :: "string \<Rightarrow> string" where
  "sliceMarker name = ''/*SLICE:'' @ name @ ''*/?''"

definition expansionText :: "string \<Rightarrow> string" where
  "expansionText name =
    CHR 0x0A # ''      # Expand array parameter '' @ name @ '' for MySQL/SQLite''
    @ CHR 0x0A # ''      if '' @ name @ ''.empty?''
    @ CHR 0x0A # ''        raise ArgumentError.new('' @ [CHR 0x22] @ emptyMessage name @ [CHR 0x22] @ '')''
    @ CHR 0x0A # ''      end''
    @ CHR 0x0A # ''      placeholders_'' @ name @ '' = '' @ name
        @ ''.size.times.map { '' @ [CHR 0x22] @ ''?'' @ [CHR 0x22] @ '' }.join(''
        @ [CHR 0x22] @ '', '' @ [CHR 0x22] @ '')''
    @ CHR 0x0A # ''      sql = sql.gsub('' @ [CHR 0x22] @ sliceMarker name @ [CHR 0x22]
        @ '', placeholders_'' @ name @ '')''"

definition expandSliceParams :: "crystalParam list \<Rightarrow> sqlcSliceParam list \<Rightarrow> string" where
  "expandSliceParams params sliceParams =
    (if sliceParams = [] then []
     else Join (map expansionText (expandedNames params sliceParams)) [CHR 0x0A])"


section \<open>The emitted query method\<close>

text \<open>
  What \<open>queriesTemplateStr\<close> emits for one query is Crystal source.  Its statements are
  kept here as a datatype, one constructor for each kind of line the template writes in
  the branch \<open>needsSliceExpansion\<close>:
  \<^item> \<open>SqlAssign s\<close>: \<open>sql = SQL_n_QUERIES[:CONSTANT]\<close>, the constant holding the query
    text \<open>s\<close>;
  \<^item> \<open>SliceExpand name\<close>: the lines \<open>expansionText name\<close> written by
    \<open>expandSliceParams\<close>;
  \<^item> \<open>ParamsNew\<close>: \<open>query_params = [] of DB::Any\<close>;
  \<^item> \<open>ParamsConcat name\<close>: \<open>query_params.concat(name.map { |v| v.as(DB::Any) })\<close>;
  \<^item> \<open>ParamsPush name\<close>: \<open>query_params << name.as(DB::Any)\<close>;
  \<^item> \<open>DbCall m\<close>: \<open>@db.m(sql, args: query_params, ...)\<close>.
  The other branch passes \<open>paramNames\<close> to the call.
\<close>

datatype stmt =
    SqlAssign string
  | SliceExpand string
  | ParamsNew
  | ParamsConcat string
  | ParamsPush string
  | DbCall string

definition flattenStmt :: "crystalParam \<Rightarrow> stmt" where
  "flattenStmt p =
    (if Contains (Param_Type p) ''Array('' then ParamsConcat (Param_Name p)
     else ParamsPush (Param_Name p))"

definition sliceCall :: "crystalQuery \<Rightarrow> stmt list" where
  "sliceCall q =
    (if CQ_Cmd q = '':one'' then [DbCall ''query_one?'']
     else if CQ_Cmd q = '':many'' then
       (if CQ_ResultStruct q \<noteq> [] then [DbCall ''query_all''] else [DbCall ''query''])
     else if CQ_Cmd q = '':exec'' then [DbCall ''exec'']
     else if CQ_Cmd q = '':execrows'' then [DbCall ''exec'']
     else [])"

definition sliceBody :: "crystalQuery \<Rightarrow> stmt list" where
  "sliceBody q =
    SqlAssign (CQ_SQL q)
    # map SliceExpand (expandedNames (CQ_Params q) (CQ_SliceParams q))
    @ ParamsNew # map flattenStmt (CQ_Params q)
    @ sliceCall q"

text \<open>The names of the \<open>SliceExpand\<close> statements of a body, in their order.\<close>

fun expansionsOf :: "stmt list \<Rightarrow> string list" where
  "expansionsOf [] = []"
| "expansionsOf (SliceExpand name # rest) = name # expansionsOf rest"
| "expansionsOf (s # rest) = expansionsOf rest"

datatype body =
    Expanding "stmt list"
  | Direct string string
  | CopyStub
  | NoCall

definition queryBody :: "string \<Rightarrow> crystalQuery \<Rightarrow> body" where
  "queryBody engine q =
    (if needsSliceExpansion q engine then Expanding (sliceBody q)
     else if CQ_Cmd q = '':one'' then Direct ''query_one?'' (paramNames (CQ_Params q))
     else if CQ_Cmd q = '':many'' then
       (if CQ_ResultStruct q \<noteq> [] then Direct ''query_all'' (paramNames (CQ_Params q))
        else Direct ''query'' (paramNames (CQ_Params q)))
     else if CQ_Cmd q \<in> set ['':exec'', '':execresult'', '':execrows'', '':execlastid'']
       then Direct ''exec'' (paramNames (CQ_Params q))
     else if CQ_Cmd q = '':copyfrom'' then CopyStub
     else NoCall)"

text \<open>
  The names of the values bound at the call, in the order they are bound: the flattened
  \<open>query_params\<close> of the expanding branch follow \<open>.Params\<close>, the arguments of the other
  branch follow \<open>paramNames\<close>.
\<close>

definition bindNames :: "string \<Rightarrow> crystalQuery \<Rightarrow> string list" where
  "bindNames engine q =
    (if needsSliceExpansion q engine then map Param_Name (CQ_Params q)
     else map Param_Name (bindOrder (CQ_Params q)))"

text \<open>The names of the signature \<open>def name(paramList)\<close>, in its order.\<close>

definition signatureNames :: "crystalQuery \<Rightarrow> string list" where
  "signatureNames q = map Param_Name (CQ_Params q)"


section \<open>Running the emitted statements\<close>

text \<open>
  The emitted lines, read as Crystal: an argument is a scalar or an array; \<open>gsub\<close>
  replaces every occurrence of a non-empty pattern, left to right; \<open>raise\<close> ends the
  method.  \<open>db_calls\<close> records each call that reaches the database, with the SQL text and
  the values it carries.
\<close>

datatype 'v arg = Scalar 'v | Array "'v list"

record 'v run_state =
  sql :: string
  query_params :: "'v list"
  db_calls :: "(string \<times> string \<times> 'v list) list"
  raised :: "string option"

function gsub :: "string \<Rightarrow> string \<Rightarrow> string \<Rightarrow> string" where
  "gsub s pat rep =
     (if s = [] then []
      else if pat \<noteq> [] \<and> HasPrefix s pat then rep @ gsub (drop (length pat) s) pat rep
      else hd s # gsub (tl s) pat rep)"
  by pat_completeness auto
termination
  by (relation "measure (\<lambda>(s, pat, rep). length s)") auto

declare gsub.simps [simp del]

text \<open>The number of places of \<open>s\<close> at which \<open>pat\<close> starts.\<close>

fun occurrences :: "string \<Rightarrow> string \<Rightarrow> nat" where
  "occurrences [] pat = 0"
| "occurrences (c # cs) pat = (if HasPrefix (c # cs) pat then 1 else 0) + occurrences cs pat"

definition placeholders :: "nat \<Rightarrow> string" where
  "placeholders n = Join (replicate n ''?'') '', ''"

definition exec_stmt :: "(string \<Rightarrow> 'v arg) \<Rightarrow> stmt \<Rightarrow> 'v run_state \<Rightarrow> 'v run_state" where
  "exec_stmt env s st =
    (case s of
       SqlAssign text \<Rightarrow> st\<lparr>sql := text\<rparr>
     | SliceExpand name \<Rightarrow>
         (case env name of
            Array vs \<Rightarrow>
              if vs = [] then st\<lparr>raised := Some (emptyMessage name)\<rparr>
              else st\<lparr>sql := gsub (sql st) (sliceMarker name) (placeholders (length vs))\<rparr>
          | Scalar v \<Rightarrow> st\<lparr>raised := Some ''not an array''\<rparr>)
     | ParamsNew \<Rightarrow> st\<lparr>query_params := []\<rparr>
     | ParamsConcat name \<Rightarrow>
         (case env name of
            Array vs \<Rightarrow> st\<lparr>query_params := query_params st @ vs\<rparr>
          | Scalar v \<Rightarrow> st\<lparr>raised := Some ''not an array''\<rparr>)
     | ParamsPush name \<Rightarrow>
         (case env name of
            Scalar v \<Rightarrow> st\<lparr>query_params := query_params st @ [v]\<rparr>
          | Array vs \<Rightarrow> st\<lparr>raised := Some ''not a scalar''\<rparr>)
     | DbCall m \<Rightarrow> st\<lparr>db_calls := db_calls st @ [(m, sql st, query_params st)]\<rparr>)"

fun run :: "(string \<Rightarrow> 'v arg) \<Rightarrow> stmt list \<Rightarrow> 'v run_state \<Rightarrow> 'v run_state" where
  "run env [] st = st"
| "run env (s # rest) st =
     (if raised st \<noteq> None then st else run env rest (exec_stmt env s st))"

definition start :: "'v run_state" where
  "start = \<lparr>sql = [], query_params = [], db_calls = [], raised = None\<rparr>"


section \<open>Repositories\<close>

definition extractTableName :: "Query \<Rightarrow> string" where
  "extractTableName q =
    (let sql = ToLower (Query_Text q);
         afterKeyword = (\<lambda>kw. case Split sql kw of
                                 a # b # rest \<Rightarrow> Fields (TrimSpace b)
                               | _ \<Rightarrow> [])
     in if Contains sql ''insert into'' \<and> afterKeyword ''insert into'' \<noteq> []
          then Trim (hd (afterKeyword ''insert into'')) ''(''
        else if HasPrefix (TrimSpace sql) ''update '' \<and> afterKeyword ''update'' \<noteq> []
          then hd (afterKeyword ''update'')
        else if Contains sql ''delete from'' \<and> afterKeyword ''delete from'' \<noteq> []
          then hd (afterKeyword ''delete from'')
        else if Contains sql ''from'' \<and> afterKeyword ''from'' \<noteq> []
          then (let table = hd (afterKeyword ''from'')
                in if Contains table '' as '' then hd (Split table '' as '') else table)
        else [])"

definition simplifyMethodName :: "string \<Rightarrow> string \<Rightarrow> string" where
  "simplifyMethodName methodName tableName =
    (let snakeMethod = toSnakeCase methodName;
         snakeTable = toSnakeCase tableName;
         singularTable = TrimSuffix snakeTable ''s''
     in if HasPrefix snakeMethod (''get_'' @ singularTable)
          then ''find'' @ drop (length (''get_'' @ singularTable)) snakeMethod
        else if HasPrefix snakeMethod (''list_'' @ snakeTable @ ''_by_'')
          then ''by_'' @ drop (length (''list_'' @ snakeTable @ ''_by_'')) snakeMethod
        else if snakeMethod = ''list_'' @ snakeTable then ''all''
        else if HasPrefix snakeMethod (''create_'' @ singularTable) then ''create''
        else if HasPrefix snakeMethod (''update_'' @ singularTable) then ''update''
        else if HasPrefix snakeMethod (''delete_'' @ singularTable) then ''delete''
        else if HasPrefix snakeMethod (snakeTable @ ''_'')
          then drop (length snakeTable + 1) snakeMethod
        else if HasPrefix snakeMethod (singularTable @ ''_'')
          then drop (length singularTable + 1) snakeMethod
        else methodName)"

text \<open>\<open>repositoryTemplate\<close>, executed for one table.\<close>

definition methodText :: "string \<Rightarrow> crystalQuery \<Rightarrow> string" where
  "methodText tableName q =
    [CHR 0x0A, CHR 0x0A] @ ''    def '' @ simplifyMethodName (CQ_Name q) tableName
    @ ''('' @ paramList (CQ_Params q) @ '')''
    @ (if CQ_ReturnType q \<noteq> [] then '' : '' @ CQ_ReturnType q else [])
    @ CHR 0x0A # ''      queries.'' @ CQ_Name q @ ''('' @ paramNames (CQ_Params q) @ '')''
    @ CHR 0x0A # ''    end''"

definition repositoryText :: "string \<Rightarrow> string \<Rightarrow> crystalQuery list \<Rightarrow> string" where
  "repositoryText package tableName queries =
    ''module '' @ crystalModuleName package
    @ CHR 0x0A # ''  class '' @ toPascalCase tableName @ ''Repository''
    @ CHR 0x0A # ''    def initialize(@queries : Queries? = nil)''
    @ CHR 0x0A # ''    end''
    @ CHR 0x0A # CHR 0x0A # ''    private def queries''
    @ CHR 0x0A # ''      @queries || Database.queries''
    @ CHR 0x0A # ''    end''
    @ concat (map (methodText tableName) queries)
    @ CHR 0x0A # CHR 0x0A # ''    # Create a repository instance that uses the given transaction context''
    @ CHR 0x0A # ''    def self.with_transaction(tx_queries : Queries)''
    @ CHR 0x0A # ''      new(tx_queries)''
    @ CHR 0x0A # ''    end''
    @ CHR 0x0A # CHR 0x0A # ''    # Execute a block within a transaction, automatically creating repository instances''
    @ CHR 0x0A # ''    def self.transaction(&block : '' @ toPascalCase tableName @ ''Repository ->)''
    @ CHR 0x0A # ''      Database.transaction do |tx_queries|''
    @ CHR 0x0A # ''        repo = new(tx_queries)''
    @ CHR 0x0A # ''        yield repo''
    @ CHR 0x0A # ''      end''
    @ CHR 0x0A # ''    end''
    @ CHR 0x0A # ''  end''
    @ CHR 0x0A # ''end'' @ [CHR 0x0A]"

definition generateRepositoryForTable :: "Generator \<Rightarrow> string \<Rightarrow> crystalQuery list \<Rightarrow> string \<times> string" where
  "generateRepositoryForTable g tableName queries =
    (''repositories/'' @ toSnakeCase tableName @ ''_repository.cr'',
     repositoryText (pkg g) tableName queries)"

fun appendQuery :: "string \<Rightarrow> crystalQuery \<Rightarrow> (string \<times> crystalQuery list) list \<Rightarrow> (string \<times> crystalQuery list) list" where
  "appendQuery k q [] = [(k, [q])]"
| "appendQuery k q ((k', qs) # xs) =
     (if k = k' then (k', qs @ [q]) # xs else (k', qs) # appendQuery k q xs)"

text \<open>
  \<open>tableQueries\<close>, the queries grouped by table (the keys in order of first appearance);
  a parameter without a column stops the generator.
\<close>

fun groupQueries ::
  "Generator \<Rightarrow> (string \<times> crystalQuery list) list \<Rightarrow> Query list \<Rightarrow> (string \<times> crystalQuery list) list option" where
  "groupQueries g tableQueries [] = Some tableQueries"
| "groupQueries g tableQueries (q # rest) =
     (case buildCrystalQuery g q of
        None \<Rightarrow> None
      | Some crystalQ \<Rightarrow>
          let tableName = extractTableName q
          in groupQueries g (if tableName \<noteq> [] then appendQuery tableName crystalQ tableQueries
                             else tableQueries) rest)"

text \<open>
  \<open>generateRepositories\<close>: one file for each key of \<open>tableQueries\<close>, in the order in
  which Go visits the keys of the map (\<open>visit\<close>, as in \<open>queryFields\<close>).
\<close>

definition generateRepositories :: "(string list \<Rightarrow> string list) \<Rightarrow> Generator \<Rightarrow> (string \<times> string) list option" where
  "generateRepositories visit g =
    (case groupQueries g [] (Queries (req g)) of
       None \<Rightarrow> None
     | Some tableQueries \<Rightarrow>
         Some (concat (map (\<lambda>tableName. case map_of tableQueries tableName of
                                            Some queries \<Rightarrow> [generateRepositoryForTable g tableName queries]
                                          | None \<Rightarrow> [])
                           (visit (map fst tableQueries)))))"

text \<open>An order of visit is a rearrangement of the keys.\<close>

definition visits :: "(string list \<Rightarrow> string list) \<Rightarrow> bool" where
  "visits visit = (\<forall>keys. mset (visit keys) = mset keys)"


section \<open>Plugin options (codegen.go)\<close>

record Options =
  Opt_Module :: string
  Opt_EmitJSONTags :: bool
  Opt_EmitDBTags :: bool
  Opt_EmitResultStructPointers :: bool
  Opt_GenerateConnectionManager :: bool
  Opt_GenerateRepositories :: bool
  Opt_EmitBooleanQuestionGetters :: bool

text \<open>
  \<open>generate\<close>, from the parsed options (all fields zero when the payload is empty or sets
  nothing) to the generator it creates.
\<close>

definition moduleName :: "Options \<Rightarrow> string" where
  "moduleName opts = (if Opt_Module opts = [] then ''Db'' else Opt_Module opts)"

definition defaultTags :: "Options \<Rightarrow> Options" where
  "defaultTags opts =
    (if \<not> Opt_EmitJSONTags opts \<and> \<not> Opt_EmitDBTags opts then opts\<lparr>Opt_EmitDBTags := True\<rparr>
     else opts)"

definition generatorOptions :: "Options \<Rightarrow> GeneratorOptions" where
  "generatorOptions opts =
    \<lparr>EmitJSONTags = Opt_EmitJSONTags opts,
     EmitDBTags = Opt_EmitDBTags opts,
     EmitResultStructPointers = Opt_EmitResultStructPointers opts,
     GenerateConnectionManager = Opt_GenerateConnectionManager opts,
     GenerateRepositories = Opt_GenerateRepositories opts,
     EmitBooleanQuestionGetters = Opt_EmitBooleanQuestionGetters opts\<rparr>"

definition generate :: "Options \<Rightarrow> GenerateRequest \<Rightarrow> Generator" where
  "generate opts r = NewGenerator r (moduleName opts) (generatorOptions (defaultTags opts))"


section \<open>Example data\<close>

definition ex_request :: "string \<Rightarrow> Schema list option \<Rightarrow> Query list \<Rightarrow> GenerateRequest" where
  "ex_request engine cat qs = \<lparr>Engine = engine, Catalog = cat, Queries = qs\<rparr>"

definition ex_genopts :: "bool \<Rightarrow> GeneratorOptions" where
  "ex_genopts pointers =
    \<lparr>EmitJSONTags = False, EmitDBTags = True, EmitResultStructPointers = pointers,
     GenerateConnectionManager = False, GenerateRepositories = False,
     EmitBooleanQuestionGetters = False\<rparr>"

definition ex_generator :: "string \<Rightarrow> bool \<Rightarrow> Generator" where
  "ex_generator engine pointers = NewGenerator (ex_request engine None []) ''db'' (ex_genopts pointers)"

definition ex_column :: "string \<Rightarrow> string \<Rightarrow> bool \<Rightarrow> bool \<Rightarrow> Column" where
  "ex_column name typ notNull isArray =
    \<lparr>Column_Name = name, Column_NotNull = notNull, Column_IsArray = isArray,
     Column_Type = Some typ, Column_IsSqlcSlice = False, Column_Table = None,
     Column_TableAlias = [], Column_EmbedTable = None\<rparr>"

definition ex_options :: Options where
  "ex_options =
    \<lparr>Opt_Module = [], Opt_EmitJSONTags = False, Opt_EmitDBTags = False,
     Opt_EmitResultStructPointers = False, Opt_GenerateConnectionManager = False,
     Opt_GenerateRepositories = False, Opt_EmitBooleanQuestionGetters = False\<rparr>"


definition ex_param :: "int \<Rightarrow> Column \<Rightarrow> Parameter" where
  "ex_param n col = \<lparr>Parameter_Number = n, Parameter_Column = Some col\<rparr>"

definition ex_query :: "string \<Rightarrow> string \<Rightarrow> string \<Rightarrow> Column list \<Rightarrow> Parameter list \<Rightarrow> Query" where
  "ex_query name cmd text cols params =
    \<lparr>Query_Name = name, Query_Text = text, Query_Cmd = cmd, Query_Columns = cols,
     Query_Params = params, Query_Comments = []\<rparr>"

text \<open>The query of the repository's test \<open>TestParameterOrdering\<close>.\<close>

definition ex_create_book :: Query where
  "ex_create_book =
    ex_query ''CreateBook'' '':one''
      ''INSERT INTO books (author_id, title, description, price, isbn, published) VALUES ($1, $2, $3, $4, $5, $6) RETURNING *''
      [ex_column ''id'' ''int4'' True False, ex_column ''author_id'' ''int4'' True False,
       ex_column ''title'' ''text'' True False, ex_column ''description'' ''text'' False False,
       ex_column ''price'' ''numeric'' True False, ex_column ''isbn'' ''varchar'' False False,
       ex_column ''published'' ''date'' False False]
      [ex_param 1 (ex_column ''author_id'' ''int4'' True False),
       ex_param 2 (ex_column ''title'' ''text'' True False),
       ex_param 3 (ex_column ''description'' ''text'' False False),
       ex_param 4 (ex_column ''price'' ''numeric'' True False),
       ex_param 5 (ex_column ''isbn'' ''varchar'' False False),
       ex_param 6 (ex_column ''published'' ''date'' False False)]"

text \<open>A query whose first parameter is a nullable array.\<close>

definition ex_tagged :: Query where
  "ex_tagged =
    ex_query ''ListTagged'' '':many'' ''SELECT id FROM books WHERE tags = $1 AND author_id = $2''
      [ex_column ''id'' ''int8'' True False]
      [ex_param 1 (ex_column ''tags'' ''text'' False True),
       ex_param 2 (ex_column ''author_id'' ''int8'' True False)]"

text \<open>A MySQL query with a nullable parameter in front of a \<open>sqlc.slice\<close> parameter.\<close>

definition ex_slice_column :: Column where
  "ex_slice_column = (ex_column ''ids'' ''bigint'' True False)\<lparr>Column_IsSqlcSlice := True\<rparr>"

definition ex_by_bio_and_ids :: Query where
  "ex_by_bio_and_ids =
    ex_query ''ListByBioAndIds'' '':many''
      ''SELECT id, name FROM authors WHERE bio = ? AND id IN (/*SLICE:ids*/?)''
      [ex_column ''id'' ''bigint'' True False, ex_column ''name'' ''text'' True False]
      [ex_param 1 (ex_column ''bio'' ''text'' False False), ex_param 2 ex_slice_column]"

definition ex_env :: "string \<Rightarrow> int arg" where
  "ex_env name = (if name = ''ids'' then Array [10, 20] else Scalar 7)"


text \<open>
  A MySQL statement with the parameter \<open>sqlc.slice('authorIds')\<close>, for which sqlc writes
  the marker \<open>/*SLICE:authorIds*/?\<close> into the query text and \<open>authorIds\<close> into the
  column name of the parameter; the same statement with \<open>sqlc.slice('author_ids')\<close>; and
  a call with three values.
\<close>

definition ex_delete_by_authors :: Query where
  "ex_delete_by_authors =
    ex_query ''DeleteBooksByAuthors'' '':exec''
      ''DELETE FROM books WHERE author_id IN (/*SLICE:authorIds*/?)'' []
      [ex_param 1 ((ex_column ''authorIds'' ''bigint'' True False)\<lparr>Column_IsSqlcSlice := True\<rparr>)]"

definition ex_delete_by_author_ids :: Query where
  "ex_delete_by_author_ids =
    ex_query ''DeleteBooksByAuthors'' '':exec''
      ''DELETE FROM books WHERE author_id IN (/*SLICE:author_ids*/?)'' []
      [ex_param 1 ((ex_column ''author_ids'' ''bigint'' True False)\<lparr>Column_IsSqlcSlice := True\<rparr>)]"

definition ex_env_authors :: "string \<Rightarrow> int arg" where
  "ex_env_authors name = Array [1, 2, 3]"


text \<open>Two tables, embed columns and join queries.\<close>

definition ex_embed :: "string \<Rightarrow> Column" where
  "ex_embed table =
    \<lparr>Column_Name = table, Column_NotNull = True, Column_IsArray = False, Column_Type = None,
     Column_IsSqlcSlice = False, Column_Table = None, Column_TableAlias = [],
     Column_EmbedTable = Some table\<rparr>"

definition ex_table :: "string \<Rightarrow> Column list \<Rightarrow> Table" where
  "ex_table name cols = \<lparr>Rel_Name = name, Rel_Schema = ''public'', Table_Columns = cols\<rparr>"

definition ex_authors :: Table where
  "ex_authors =
    ex_table ''authors''
      [ex_column ''id'' ''int8'' True False, ex_column ''name'' ''text'' True False,
       ex_column ''bio'' ''text'' False False]"

definition ex_books :: Table where
  "ex_books =
    ex_table ''books''
      [ex_column ''id'' ''int8'' True False, ex_column ''author_id'' ''int8'' True False,
       ex_column ''title'' ''text'' True False]"

definition ex_catalog :: "Schema list" where
  "ex_catalog = [\<lparr>Schema_Name = ''public'', Schema_Tables = [ex_authors, ex_books]\<rparr>]"

definition ex_left_join :: Query where
  "ex_left_join =
    ex_query ''GetAuthorsWithBooks'' '':many''
      ''SELECT sqlc.embed(authors), sqlc.embed(books) FROM authors LEFT JOIN books ON books.author_id = authors.id''
      [ex_embed ''authors'', ex_embed ''books''] []"

definition ex_right_join :: Query where
  "ex_right_join =
    ex_query ''GetBooksWithAuthors'' '':many''
      ''SELECT sqlc.embed(authors), sqlc.embed(books) FROM authors RIGHT JOIN books ON books.author_id = authors.id''
      [ex_embed ''authors'', ex_embed ''books''] []"

definition ex_get_author :: Query where
  "ex_get_author =
    ex_query ''GetAuthor'' '':one'' ''SELECT id, name, bio FROM authors WHERE id = $1''
      [ex_column ''id'' ''int8'' True False, ex_column ''name'' ''text'' True False,
       ex_column ''bio'' ''text'' False False]
      [ex_param 1 (ex_column ''id'' ''int8'' True False)]"

definition ex_create_author :: Query where
  "ex_create_author =
    ex_query ''CreateAuthor'' '':one''
      ''INSERT INTO authors (name, bio) VALUES ($1, $2) RETURNING id, name, bio''
      [ex_column ''id'' ''int8'' True False, ex_column ''name'' ''text'' True False,
       ex_column ''bio'' ''text'' False False]
      [ex_param 1 (ex_column ''name'' ''text'' True False),
       ex_param 2 (ex_column ''bio'' ''text'' False False)]"

definition ex_get_book :: Query where
  "ex_get_book =
    ex_query ''GetBook'' '':one'' ''SELECT id, author_id, title FROM books WHERE id = $1''
      [ex_column ''id'' ''int8'' True False, ex_column ''author_id'' ''int8'' True False,
       ex_column ''title'' ''text'' True False]
      [ex_param 1 (ex_column ''id'' ''int8'' True False)]"

definition ex_gen :: "Schema list option \<Rightarrow> Query list \<Rightarrow> Generator" where
  "ex_gen cat qs = NewGenerator (ex_request ''postgresql'' cat qs) ''db'' (ex_genopts False)"

text \<open>The same with the option \<open>generate_repositories\<close>.\<close>

definition ex_repo_gen :: "Schema list option \<Rightarrow> Query list \<Rightarrow> Generator" where
  "ex_repo_gen cat qs =
    NewGenerator (ex_request ''postgresql'' cat qs) ''db''
      ((ex_genopts False)\<lparr>GenerateRepositories := True\<rparr>)"

text \<open>
  Two tables with the same columns, a query on the first, a one-column table with a query
  on it, and a query that selects a column of a table together with the embedded table.
\<close>

definition ex_users :: Table where
  "ex_users =
    ex_table ''users'' [ex_column ''id'' ''int8'' True False, ex_column ''name'' ''text'' True False]"

definition ex_members :: Table where
  "ex_members =
    ex_table ''members'' [ex_column ''id'' ''int8'' True False, ex_column ''name'' ''text'' True False]"

definition ex_tags :: Table where
  "ex_tags = ex_table ''tags'' [ex_column ''label'' ''text'' True False]"

definition ex_twins :: "Schema list" where
  "ex_twins = [\<lparr>Schema_Name = ''public'', Schema_Tables = [ex_users, ex_members, ex_tags]\<rparr>]"

definition ex_get_user :: Query where
  "ex_get_user =
    ex_query ''GetUser'' '':one'' ''SELECT id, name FROM users WHERE id = $1''
      [ex_column ''id'' ''int8'' True False, ex_column ''name'' ''text'' True False]
      [ex_param 1 (ex_column ''id'' ''int8'' True False)]"

definition ex_list_labels :: Query where
  "ex_list_labels =
    ex_query ''ListLabels'' '':many'' ''SELECT label FROM tags''
      [ex_column ''label'' ''text'' True False] []"

definition ex_shadowed :: Query where
  "ex_shadowed =
    ex_query ''GetUserWithId'' '':many'' ''SELECT users.id, sqlc.embed(users) FROM users''
      [(ex_column ''id'' ''int8'' True False)\<lparr>Column_Table := Some ''users''\<rparr>, ex_embed ''users'']
      []"


definition ex_left_outer_join :: Query where
  "ex_left_outer_join =
    ex_query ''GetAuthorsWithOptionalBooks'' '':many''
      ''SELECT sqlc.embed(authors), sqlc.embed(books) FROM authors LEFT OUTER JOIN books ON books.author_id = authors.id''
      [ex_embed ''authors'', ex_embed ''books''] []"


section \<open>Invariants of generateModels\<close>

text \<open>
  What holds of the three maps during the first pass (\<open>T\<close> holds the tables a struct may
  come from) and during the second (\<open>TS\<close> are the structs built from the tables,
  \<open>QS\<close> the structs built from the queries).
\<close>

definition table_inv :: "Generator \<Rightarrow> Table set \<Rightarrow> models_state \<Rightarrow> bool" where
  "table_inv g T st =
    (req (gen st) = req g \<and> options (gen st) = options g
     \<and> distinct (map fst (structs st))
     \<and> (\<forall>k s. (k, s) \<in> set (structs st) \<longrightarrow>
           Struct_Name s = k \<and> s \<in> tableStruct g ` T \<and> Struct_Fields s \<noteq> []
           \<and> fieldSig (Struct_Fields s) \<in> dom (fieldSignatures st))
     \<and> (\<forall>sig n. fieldSignatures st sig = Some n \<longrightarrow>
           (\<exists>t \<in> T. sig = fieldSig (Struct_Fields (tableStruct g t))
                    \<and> n = Struct_Name (tableStruct g t))))"

definition models_inv ::
  "Generator \<Rightarrow> crystalStruct set \<Rightarrow> crystalStruct set \<Rightarrow> models_state \<Rightarrow> bool" where
  "models_inv g TS QS st =
    (req (gen st) = req g \<and> options (gen st) = options g
     \<and> distinct (map fst (structs st))
     \<and> (\<forall>k s. (k, s) \<in> set (structs st) \<longrightarrow>
           Struct_Name s = k
           \<and> fieldSig (Struct_Fields s) \<in> dom (fieldSignatures st)
           \<and> (s \<in> TS \<or> s \<in> QS))
     \<and> (\<forall>k1 s1 k2 s2. (k1, s1) \<in> set (structs st) \<and> (k2, s2) \<in> set (structs st) \<and> k1 \<noteq> k2
           \<and> fieldSig (Struct_Fields s1) = fieldSig (Struct_Fields s2)
           \<longrightarrow> s1 \<in> TS \<and> s2 \<in> TS))"


section \<open>Properties\<close>

section \<open>Type mapping\<close>

lemma postgresType_nonempty: "postgresType t \<noteq> []"
  by (simp add: postgresType_def)

lemma mysqlType_nonempty: "mysqlType t \<noteq> []"
  by (simp add: mysqlType_def)

lemma sqliteType_nonempty: "sqliteType t \<noteq> []"
  by (simp add: sqliteType_def Let_def)

lemma baseType_nonempty: "baseType g col \<noteq> []"
  by (simp add: baseType_def postgresType_nonempty mysqlType_nonempty sqliteType_nonempty)

lemma crystalType_nonempty: "crystalType g col \<noteq> []"
  by (simp add: crystalType_def Let_def baseType_nonempty)

lemma postgresType_fallback: "t \<notin> set postgres_labels \<Longrightarrow> postgresType t = ''String''"
  by (simp add: postgres_labels_def postgresType_def)

lemma mysqlType_fallback: "t \<notin> set mysql_labels \<Longrightarrow> mysqlType t = ''String''"
  by (simp add: mysql_labels_def mysqlType_def)

lemma sqliteType_fallback: "\<not> sqlite_recognized t \<Longrightarrow> sqliteType t = ''String''"
  by (simp add: sqlite_recognized_def sqliteType_def Let_def)

lemma baseType_fallback:
  "\<not> recognized (Engine (req g)) (typeName col) \<Longrightarrow> baseType g col = ''String''"
  by (auto simp: recognized_def baseType_def postgresType_fallback mysqlType_fallback
      sqliteType_fallback split: if_splits)

text \<open>
  C4.  The type mapping is total: for every dialect selector, type name, nullable flag and
  array flag, \<open>crystalType\<close> (and the base type under it) is a non-empty string; a
  selector other than the three dialects is mapped with the PostgreSQL table; a type name the
  dialect does not recognise is mapped to \<open>String\<close>.
\<close>

theorem typeMapper_total:
  "crystalType g col \<noteq> [] \<and> baseType g col \<noteq> []
   \<and> (Engine (req g) \<notin> {''postgresql'', ''mysql'', ''sqlite''}
        \<longrightarrow> baseType g col = postgresType (typeName col))
   \<and> (\<not> recognized (Engine (req g)) (typeName col) \<longrightarrow> baseType g col = ''String'')"
  by (simp add: crystalType_nonempty baseType_nonempty baseType_fallback) (simp add: baseType_def)

theorem typeMapper_total_witness:
  "Engine (req (ex_generator ''oracle'' False)) \<notin> {''postgresql'', ''mysql'', ''sqlite''}
   \<and> \<not> recognized (Engine (req (ex_generator ''oracle'' False)))
          (typeName (ex_column ''shape'' ''GEOGRAPHY'' False True))
   \<and> baseType (ex_generator ''oracle'' False) (ex_column ''shape'' ''GEOGRAPHY'' False True) = ''String''
   \<and> crystalType (ex_generator ''oracle'' False) (ex_column ''shape'' ''GEOGRAPHY'' False True) \<noteq> []"
proof -
  have e: "Engine (req (ex_generator ''oracle'' False)) \<notin> {''postgresql'', ''mysql'', ''sqlite''}"
    by (simp add: ex_generator_def ex_request_def NewGenerator_def)
  have u: "\<not> recognized (Engine (req (ex_generator ''oracle'' False)))
             (typeName (ex_column ''shape'' ''GEOGRAPHY'' False True))"
    by code_simp
  from typeMapper_total [of "ex_generator ''oracle'' False" "ex_column ''shape'' ''GEOGRAPHY'' False True"] e u
  show ?thesis by blast
qed

text \<open>
  C5.  A column that is nullable and not an array resolves to its base type followed by the
  optional marker (\<open>?\<close>, or \<open>*\<close> with pointer emission); an array column resolves to
  \<open>Array(base type)\<close> and nothing more, whatever its nullable flag.
\<close>

theorem crystalType_nullable_array:
  "(\<not> Column_IsArray col \<and> \<not> Column_NotNull col \<longrightarrow>
      crystalType g col
        = baseType g col @ (if EmitResultStructPointers (options g) then ''*'' else ''?''))
   \<and> (Column_IsArray col \<longrightarrow> crystalType g col = ''Array('' @ baseType g col @ '')'')"
  by (simp add: crystalType_def Let_def)

theorem crystalType_nullable_array_witness:
  "crystalType (ex_generator ''postgresql'' False) (ex_column ''age'' ''int4'' False False) = ''Int32?''
   \<and> crystalType (ex_generator ''postgresql'' True) (ex_column ''age'' ''int4'' False False) = ''Int32*''
   \<and> crystalType (ex_generator ''postgresql'' False) (ex_column ''tags'' ''text'' False True) = ''Array(String)''"
proof -
  have b1: "baseType (ex_generator ''postgresql'' False) (ex_column ''age'' ''int4'' False False) = ''Int32''"
    by code_simp
  have b2: "baseType (ex_generator ''postgresql'' True) (ex_column ''age'' ''int4'' False False) = ''Int32''"
    by code_simp
  have b3: "baseType (ex_generator ''postgresql'' False) (ex_column ''tags'' ''text'' False True) = ''String''"
    by code_simp
  show ?thesis
    using crystalType_nullable_array [of "ex_column ''age'' ''int4'' False False" "ex_generator ''postgresql'' False"]
      crystalType_nullable_array [of "ex_column ''age'' ''int4'' False False" "ex_generator ''postgresql'' True"]
      crystalType_nullable_array [of "ex_column ''tags'' ''text'' False True" "ex_generator ''postgresql'' False"]
      b1 b2 b3
    by (simp add: ex_column_def ex_generator_def ex_genopts_def NewGenerator_def)
qed

text \<open>
  C10.  When the options set neither \<open>emit_json_tags\<close> nor \<open>emit_db_tags\<close>, the generator
  is the one created with \<open>emit_db_tags\<close> set: DB tags are on, and a field whose column
  name differs from its Crystal name gets the \<open>DB::Field\<close> annotation in front of what it
  would get without DB tags.
\<close>

theorem db_tags_default:
  "\<not> Opt_EmitJSONTags opts \<and> \<not> Opt_EmitDBTags opts \<longrightarrow>
     generate opts r = generate (opts\<lparr>Opt_EmitDBTags := True\<rparr>) r
     \<and> EmitDBTags (options (generate opts r))
     \<and> (Field_DBName f \<noteq> Field_Name f \<longrightarrow>
          fieldText (options (generate opts r)) f
            = indent4 @ ''@[DB::Field(key: '' @ go_quote (Field_DBName f) @ '')]''
              @ fieldText ((options (generate opts r))\<lparr>EmitDBTags := False\<rparr>) f)"
  by (simp add: generate_def defaultTags_def generatorOptions_def NewGenerator_def moduleName_def
      fieldText_def)

theorem db_tags_default_witness:
  "\<not> Opt_EmitJSONTags ex_options \<and> \<not> Opt_EmitDBTags ex_options
   \<and> Field_DBName (columnField (generate ex_options (ex_request ''postgresql'' None [])) (ex_column ''authorId'' ''int8'' True False))
       \<noteq> Field_Name (columnField (generate ex_options (ex_request ''postgresql'' None [])) (ex_column ''authorId'' ''int8'' True False))
   \<and> fieldText (options (generate ex_options (ex_request ''postgresql'' None [])))
        (columnField (generate ex_options (ex_request ''postgresql'' None [])) (ex_column ''authorId'' ''int8'' True False))
      = indent4 @ ''@[DB::Field(key: '' @ go_quote ''authorId'' @ '')]''
        @ fieldText ((options (generate ex_options (ex_request ''postgresql'' None [])))\<lparr>EmitDBTags := False\<rparr>)
            (columnField (generate ex_options (ex_request ''postgresql'' None [])) (ex_column ''authorId'' ''int8'' True False))"
proof -
  have n: "toSnakeCase ''authorId'' = ''author_id''" by code_simp
  have d: "Field_DBName (columnField (generate ex_options (ex_request ''postgresql'' None [])) (ex_column ''authorId'' ''int8'' True False))
            \<noteq> Field_Name (columnField (generate ex_options (ex_request ''postgresql'' None [])) (ex_column ''authorId'' ''int8'' True False))"
    by (simp add: columnField_def ex_column_def n)
  have o: "\<not> Opt_EmitJSONTags ex_options \<and> \<not> Opt_EmitDBTags ex_options"
    by (simp add: ex_options_def)
  have k: "Field_DBName (columnField (generate ex_options (ex_request ''postgresql'' None [])) (ex_column ''authorId'' ''int8'' True False))
            = ''authorId''"
    by (simp add: columnField_def ex_column_def)
  from db_tags_default [of ex_options "ex_request ''postgresql'' None []"
        "columnField (generate ex_options (ex_request ''postgresql'' None [])) (ex_column ''authorId'' ''int8'' True False)"] o d
  have "fieldText (options (generate ex_options (ex_request ''postgresql'' None [])))
          (columnField (generate ex_options (ex_request ''postgresql'' None [])) (ex_column ''authorId'' ''int8'' True False))
        = indent4 @ ''@[DB::Field(key: ''
          @ go_quote (Field_DBName (columnField (generate ex_options (ex_request ''postgresql'' None [])) (ex_column ''authorId'' ''int8'' True False)))
          @ '')]''
          @ fieldText ((options (generate ex_options (ex_request ''postgresql'' None [])))\<lparr>EmitDBTags := False\<rparr>)
              (columnField (generate ex_options (ex_request ''postgresql'' None [])) (ex_column ''authorId'' ''int8'' True False))"
    by blast
  with o d k show ?thesis by simp
qed

section \<open>Sorting the parameters\<close>

lemma mset_insert_by: "mset (insert_by lt x xs) = add_mset x (mset xs)"
  by (induction xs) auto

lemma mset_sort_by: "mset (sort_by lt xs) = mset xs"
  unfolding sort_by_def by (induction xs rule: rev_induct) (auto simp: mset_insert_by)

lemma set_insert_by: "set (insert_by lt x xs) = insert x (set xs)"
  by (induction xs) auto

lemma set_sort_by: "set (sort_by lt xs) = set xs"
  by (metis mset_sort_by set_mset_mset)

lemma sorted_insert_by:
  assumes asym: "\<And>a b. lt a b \<Longrightarrow> \<not> lt b a"
    and trans: "\<And>a b c. \<not> lt b a \<Longrightarrow> \<not> lt c b \<Longrightarrow> \<not> lt c a"
    and srt: "sorted_wrt (\<lambda>a b. \<not> lt b a) xs"
  shows "sorted_wrt (\<lambda>a b. \<not> lt b a) (insert_by lt x xs)"
  using srt
proof (induction xs)
  case Nil
  then show ?case by simp
next
  case (Cons y ys)
  show ?case
  proof (cases "lt x y")
    case True
    have "\<not> lt z x" if "z \<in> set ys" for z
    proof -
      from Cons.prems that have "\<not> lt z y" by simp
      from trans [OF asym [OF True] this] show ?thesis .
    qed
    with True Cons.prems asym [OF True] show ?thesis by auto
  next
    case False
    with Cons show ?thesis by (auto simp: set_insert_by)
  qed
qed

lemma sorted_sort_by:
  assumes "\<And>a b. lt a b \<Longrightarrow> \<not> lt b a"
    and "\<And>a b c. \<not> lt b a \<Longrightarrow> \<not> lt c b \<Longrightarrow> \<not> lt c a"
  shows "sorted_wrt (\<lambda>a b. \<not> lt b a) (sort_by lt xs)"
  unfolding sort_by_def
proof (induction xs rule: rev_induct)
  case Nil
  then show ?case by simp
next
  case (snoc x xs)
  have "sorted_wrt (\<lambda>a b. \<not> lt b a) (insert_by lt x (foldl (\<lambda>acc x. insert_by lt x acc) [] xs))"
    by (rule sorted_insert_by [OF assms(1) assms(2) snoc.IH])
  then show ?case by simp
qed

lemma sorted_params:
  "sorted_wrt (\<lambda>a b. \<not> paramLess b a) (sort_by paramLess ps)"
  by (rule sorted_sort_by) (auto simp: paramLess_def split: if_splits)

lemma sorted_bindOrder: "sorted (map Param_Position (bindOrder ps))"
proof -
  have "sorted_wrt (\<lambda>a b. \<not> Param_Position b < Param_Position a) (bindOrder ps)"
    unfolding bindOrder_def by (rule sorted_sort_by) auto
  then show ?thesis
    by (simp add: sorted_wrt_map not_less)
qed

lemma partition_sorted_wrt:
  assumes "sorted_wrt R xs" and "\<And>a b. R a b \<Longrightarrow> P a \<Longrightarrow> P b"
  shows "xs = filter (Not \<circ> P) xs @ filter P xs"
  using assms(1)
proof (induction xs)
  case Nil
  then show ?case by simp
next
  case (Cons x xs)
  show ?case
  proof (cases "P x")
    case True
    with Cons.prems assms(2) have "\<forall>y \<in> set xs. P y" by auto
    then have "filter (\<lambda>a. \<not> P a) xs = []" "filter P xs = xs" by (auto simp: filter_empty_conv)
    with True show ?thesis by (simp add: comp_def)
  next
    case False
    with Cons show ?thesis by simp
  qed
qed

lemma required_first:
  "sort_by paramLess ps
     = filter (Not \<circ> isOptional) (sort_by paramLess ps) @ filter isOptional (sort_by paramLess ps)"
  by (rule partition_sorted_wrt [OF sorted_params]) (auto simp: paramLess_def split: if_splits)

lemma group_by_position:
  "sorted (map Param_Position (filter (\<lambda>p. isOptional p = b) (sort_by paramLess ps)))"
proof -
  have "sorted_wrt (\<lambda>a b. \<not> paramLess b a) (filter (\<lambda>p. isOptional p = b) (sort_by paramLess ps))"
    by (rule sorted_wrt_filter [OF sorted_params])
  then have "sorted_wrt (\<lambda>a b. Param_Position a \<le> Param_Position b)
               (filter (\<lambda>p. isOptional p = b) (sort_by paramLess ps))"
    by (rule sorted_wrt_mono_rel [rotated]) (auto simp: paramLess_def split: if_splits)
  then show ?thesis by (simp add: sorted_wrt_map)
qed

lemma those_map_Some: "those xs = Some ys \<Longrightarrow> xs = map Some ys"
  by (induction xs arbitrary: ys) (auto split: option.splits)

lemma HasSuffix_append [simp]: "HasSuffix (s @ [c]) [d] = (c = d)"
  by (simp add: HasSuffix_def)

lemma postgresType_not_optional: "\<not> HasSuffix (postgresType t) ''?''"
  by (simp add: postgresType_def HasSuffix_def)

lemma mysqlType_not_optional: "\<not> HasSuffix (mysqlType t) ''?''"
  by (simp add: mysqlType_def HasSuffix_def)

lemma sqliteType_not_optional: "\<not> HasSuffix (sqliteType t) ''?''"
  by (simp add: sqliteType_def HasSuffix_def Let_def)

lemma baseType_not_optional: "\<not> HasSuffix (baseType g col) ''?''"
  by (simp add: baseType_def postgresType_not_optional mysqlType_not_optional sqliteType_not_optional)

lemma crystalType_optional:
  "HasSuffix (crystalType g col) ''?''
    = (\<not> Column_NotNull col \<and> \<not> Column_IsArray col \<and> \<not> EmitResultStructPointers (options g))"
proof -
  have a: "\<not> HasSuffix (''Array('' @ baseType g col @ '')'') ''?''"
    using HasSuffix_append [of "''Array('' @ baseType g col" "CHR '')''" "CHR ''?''"] by simp
  have b: "\<not> HasSuffix (baseType g col @ ''*'') ''?''" by simp
  have c: "HasSuffix (baseType g col @ ''?'') ''?''" by simp
  show ?thesis
    using a b c baseType_not_optional [of g col]
    by (auto simp: crystalType_def Let_def)
qed

lemma queryParam_optional:
  assumes "queryParam g param = Some p"
  shows "\<exists>col. Parameter_Column param = Some col \<and>
           (isOptional p = (\<not> Column_NotNull col \<and> \<not> Column_IsArray col \<and> \<not> Column_IsSqlcSlice col
                            \<and> \<not> EmitResultStructPointers (options g)))"
proof (cases "Parameter_Column param")
  case None
  with assms show ?thesis by (simp add: queryParam_def)
next
  case (Some col)
  have a: "\<not> HasSuffix (''Array('' @ baseType g col @ '')'') ''?''"
    using HasSuffix_append [of "''Array('' @ baseType g col" "CHR '')''" "CHR ''?''"] by simp
  from Some assms have "Param_Type p = (if Column_IsSqlcSlice col then ''Array('' @ baseType g col @ '')''
                             else crystalType g col)"
    by (auto simp: queryParam_def)
  with a Some show ?thesis
    by (auto simp: isOptional_def crystalType_optional)
qed

lemma generateQuery_params:
  assumes "generateQuery g query = Some q"
  shows "\<exists>ps. those (map (queryParam g) (Query_Params query)) = Some ps
              \<and> CQ_Params q = sort_by paramLess ps"
  using assms by (auto simp: generateQuery_def split: option.splits)

text \<open>
  C6, as the code has it.  In the signature of every generated query method the parameters
  whose type ends in \<open>?\<close> come after all the others, each of the two groups is in order
  of bind position, and exactly these parameters get the default \<open>= nil\<close>.  They are the
  parameters whose column is nullable, is not an array and is not a \<open>sqlc.slice\<close>
  parameter, when pointer emission is off; the signature holds every parameter of the query
  once.
\<close>

theorem signature_order:
  assumes "generateQuery g query = Some q"
  shows "CQ_Params q = filter (Not \<circ> isOptional) (CQ_Params q) @ filter isOptional (CQ_Params q)
    \<and> sorted (map Param_Position (filter (Not \<circ> isOptional) (CQ_Params q)))
    \<and> sorted (map Param_Position (filter isOptional (CQ_Params q)))
    \<and> paramList (CQ_Params q) = Join (map paramPart (CQ_Params q)) '', ''
    \<and> (\<forall>p \<in> set (CQ_Params q).
          paramPart p = Param_Name p @ '' : '' @ Param_Type p @ (if isOptional p then '' = nil'' else []))
    \<and> mset (map Some (CQ_Params q)) = mset (map (queryParam g) (Query_Params query))
    \<and> (\<forall>param \<in> set (Query_Params query). \<forall>p. queryParam g param = Some p \<longrightarrow>
          (\<exists>col. Parameter_Column param = Some col \<and>
             isOptional p = (\<not> Column_NotNull col \<and> \<not> Column_IsArray col \<and> \<not> Column_IsSqlcSlice col
                             \<and> \<not> EmitResultStructPointers (options g))))"
proof -
  from generateQuery_params [OF assms] obtain ps
    where ps: "those (map (queryParam g) (Query_Params query)) = Some ps"
      and q: "CQ_Params q = sort_by paramLess ps" by blast
  have 1: "CQ_Params q = filter (Not \<circ> isOptional) (CQ_Params q) @ filter isOptional (CQ_Params q)"
    unfolding q by (rule required_first)
  have "(Not \<circ> isOptional) = (\<lambda>p. isOptional p = False)" by (auto simp: comp_def)
  then have 2: "sorted (map Param_Position (filter (Not \<circ> isOptional) (CQ_Params q)))"
    unfolding q using group_by_position [of False ps] by simp
  have "isOptional = (\<lambda>p. isOptional p = True)" by simp
  then have 3: "sorted (map Param_Position (filter isOptional (CQ_Params q)))"
    unfolding q using group_by_position [of True ps] by simp
  have 4: "paramList (CQ_Params q) = Join (map paramPart (CQ_Params q)) '', ''"
    by (simp add: paramList_def)
  have 5: "\<forall>p \<in> set (CQ_Params q).
          paramPart p = Param_Name p @ '' : '' @ Param_Type p @ (if isOptional p then '' = nil'' else [])"
    by (simp add: paramPart_def)
  have "mset (map Some (sort_by paramLess ps)) = mset (map Some ps)"
    by (simp add: mset_sort_by)
  with those_map_Some [OF ps]
  have 6: "mset (map Some (CQ_Params q)) = mset (map (queryParam g) (Query_Params query))"
    unfolding q by simp
  have 7: "\<forall>param \<in> set (Query_Params query). \<forall>p. queryParam g param = Some p \<longrightarrow>
          (\<exists>col. Parameter_Column param = Some col \<and>
             isOptional p = (\<not> Column_NotNull col \<and> \<not> Column_IsArray col \<and> \<not> Column_IsSqlcSlice col
                             \<and> \<not> EmitResultStructPointers (options g)))"
    using queryParam_optional by blast
  from 1 2 3 4 5 6 7 show ?thesis by blast
qed

theorem signature_order_witness:
  "map_option (\<lambda>q. map Param_Name (CQ_Params q))
      (generateQuery (ex_generator ''postgresql'' False) ex_create_book)
     = Some [''author_id'', ''title'', ''price'', ''description'', ''isbn'', ''published'']
   \<and> map_option (\<lambda>q. map Param_Position (filter (Not \<circ> isOptional) (CQ_Params q)))
      (generateQuery (ex_generator ''postgresql'' False) ex_create_book) = Some [1, 2, 4]
   \<and> map_option (\<lambda>q. map Param_Position (filter isOptional (CQ_Params q)))
      (generateQuery (ex_generator ''postgresql'' False) ex_create_book) = Some [3, 5, 6]
   \<and> sorted [1, 2, 4 :: int] \<and> sorted [3, 5, 6 :: int]"
proof -
  have n: "map_option (\<lambda>q. map Param_Name (CQ_Params q))
      (generateQuery (ex_generator ''postgresql'' False) ex_create_book)
     = Some [''author_id'', ''title'', ''price'', ''description'', ''isbn'', ''published'']"
    by code_simp
  have r: "map_option (\<lambda>q. map Param_Position (filter (Not \<circ> isOptional) (CQ_Params q)))
      (generateQuery (ex_generator ''postgresql'' False) ex_create_book) = Some [1, 2, 4]"
    by code_simp
  have d: "map_option (\<lambda>q. map Param_Position (filter isOptional (CQ_Params q)))
      (generateQuery (ex_generator ''postgresql'' False) ex_create_book) = Some [3, 5, 6]"
    by code_simp
  from n obtain q where q: "generateQuery (ex_generator ''postgresql'' False) ex_create_book = Some q"
    by (cases "generateQuery (ex_generator ''postgresql'' False) ex_create_book") auto
  from signature_order [OF q]
  have "sorted (map Param_Position (filter (Not \<circ> isOptional) (CQ_Params q)))"
    and "sorted (map Param_Position (filter isOptional (CQ_Params q)))" by blast+
  with q r d have "sorted [1, 2, 4 :: int]" "sorted [3, 5, 6 :: int]" by auto
  with n r d show ?thesis by blast
qed

theorem signature_order_counterexample:
  "map_option (\<lambda>q. paramList (CQ_Params q)) (generateQuery (ex_generator ''postgresql'' False) ex_tagged)
     = Some ''tags : Array(String), author_id : Int64''"
  by code_simp

section \<open>The bound values\<close>

lemma direct_bind_order:
  assumes "\<not> needsSliceExpansion q engine"
  shows "set (bindNames engine q) = set (signatureNames q)
       \<and> bindNames engine q = map Param_Name (bindOrder (CQ_Params q))
       \<and> sorted (map Param_Position (bindOrder (CQ_Params q)))
       \<and> mset (bindOrder (CQ_Params q)) = mset (CQ_Params q)"
  using assms
  by (simp add: bindNames_def signatureNames_def sorted_bindOrder)
     (simp add: bindOrder_def mset_sort_by set_sort_by)

text \<open>
  C2, at a MySQL query with a nullable parameter (position 1) in front of a
  \<open>sqlc.slice\<close> parameter (position 2): the signature puts \<open>ids\<close> first, and the
  flattened \<open>query_params\<close> follow the signature, not the positions; with
  \<open>ids = [10, 20]\<close> and \<open>bio = 7\<close> the call carries \<open>[10, 20, 7]\<close> for the
  placeholders of \<open>bio = ? AND id IN (?, ?)\<close>.
\<close>

theorem flattened_order_failing_input:
  "map_option (\<lambda>q. (needsSliceExpansion q ''mysql'', signatureNames q,
                     map Param_Position (CQ_Params q), bindNames ''mysql'' q))
      (generateQuery (ex_generator ''mysql'' False) ex_by_bio_and_ids)
     = Some (True, [''ids'', ''bio''], [2, 1], [''ids'', ''bio''])
   \<and> map_option (\<lambda>q. db_calls (run ex_env (sliceBody q) start))
      (generateQuery (ex_generator ''mysql'' False) ex_by_bio_and_ids)
     = Some [(''query_all'', ''SELECT id, name FROM authors WHERE bio = ? AND id IN (?, ?)'',
              [10, 20, 7])]"
  by code_simp

section \<open>Slice expansion\<close>

lemma gsub_Nil [simp]: "gsub [] pat rep = []"
  by (simp add: gsub.simps)

lemma gsub_skip: "\<not> HasPrefix (c # cs) pat \<Longrightarrow> gsub (c # cs) pat rep = c # gsub cs pat rep"
  by (subst gsub.simps) simp

lemma gsub_none: "occurrences s pat = 0 \<Longrightarrow> gsub s pat rep = s"
  by (induction s) (auto simp: gsub_skip split: if_splits)

text \<open>An expansion whose marker is not in the text leaves the text as it is.\<close>

lemma expansion_without_marker:
  assumes "env name = Array vs" and "vs \<noteq> []" and "occurrences (sql st) (sliceMarker name) = 0"
  shows "exec_stmt env (SliceExpand name) st = st"
  using assms by (simp add: exec_stmt_def gsub_none)

text \<open>
  The text that \<open>expandSliceParams\<close> writes into the method is the text of the
  \<open>SliceExpand\<close> statements of the body, in their order.
\<close>

lemma expansionsOf_append: "expansionsOf (a @ b) = expansionsOf a @ expansionsOf b"
  by (induction a rule: expansionsOf.induct) auto

lemma expansionsOf_expand: "expansionsOf (map SliceExpand names) = names"
  by (induction names) auto

lemma expansionsOf_flatten: "expansionsOf (map flattenStmt ps) = []"
  by (induction ps) (auto simp: flattenStmt_def)

lemma expansionsOf_sliceBody:
  "expansionsOf (sliceBody q) = expandedNames (CQ_Params q) (CQ_SliceParams q)"
proof -
  have "expansionsOf (sliceCall q) = []" by (simp add: sliceCall_def)
  then show ?thesis
    by (simp add: sliceBody_def expansionsOf_append expansionsOf_expand expansionsOf_flatten)
qed

lemma expandSliceParams_body:
  "expandSliceParams (CQ_Params q) (CQ_SliceParams q)
     = Join (map expansionText (expansionsOf (sliceBody q))) [CHR 0x0A]"
  by (simp add: expansionsOf_sliceBody expandSliceParams_def expandedNames_def)

lemma run_raised: "raised st \<noteq> None \<Longrightarrow> run env stmts st = st"
  by (cases stmts) auto

lemma run_append: "run env (a @ b) st = run env b (run env a st)"
  by (induction a arbitrary: st) (auto simp: run_raised)

lemma run_expansions:
  assumes "\<forall>n \<in> set names. \<exists>vs. env n = Array vs"
    and "\<exists>n \<in> set names. env n = Array []"
    and "raised st = None" and "db_calls st = []"
  shows "(\<exists>n \<in> set names. env n = Array [] \<and>
            raised (run env (map SliceExpand names) st) = Some (emptyMessage n))
         \<and> db_calls (run env (map SliceExpand names) st) = []"
  using assms
proof (induction names arbitrary: st)
  case Nil
  then show ?case by simp
next
  case (Cons n names)
  from Cons.prems(1) obtain vs where vs: "env n = Array vs" by auto
  show ?case
  proof (cases "vs = []")
    case True
    with vs Cons.prems(3,4) show ?thesis
      by (simp add: exec_stmt_def run_raised)
  next
    case False
    let ?st = "exec_stmt env (SliceExpand n) st"
    from False vs Cons.prems(3,4) have st: "raised ?st = None" "db_calls ?st = []"
      by (simp_all add: exec_stmt_def)
    from False vs Cons.prems(2) have "\<exists>m \<in> set names. env m = Array []" by auto
    from Cons.IH [OF _ this st] Cons.prems(1)
    have "(\<exists>m \<in> set names. env m = Array [] \<and>
            raised (run env (map SliceExpand names) ?st) = Some (emptyMessage m))
         \<and> db_calls (run env (map SliceExpand names) ?st) = []" by simp
    with Cons.prems(3) show ?thesis by auto
  qed
qed

lemma run_sliceBody_empty:
  fixes env :: "string \<Rightarrow> 'v arg"
  assumes "\<forall>n \<in> set (expandedNames (CQ_Params q) (CQ_SliceParams q)). \<exists>vs. env n = Array vs"
    and "\<exists>n \<in> set (expandedNames (CQ_Params q) (CQ_SliceParams q)). env n = Array []"
  shows "(\<exists>n \<in> set (expandedNames (CQ_Params q) (CQ_SliceParams q)). env n = Array [] \<and>
            raised (run env (sliceBody q) start) = Some (emptyMessage n))
         \<and> db_calls (run env (sliceBody q) start) = []"
proof -
  let ?names = "expandedNames (CQ_Params q) (CQ_SliceParams q)"
  let ?st0 = "exec_stmt env (SqlAssign (CQ_SQL q)) (start :: 'v run_state)"
  let ?st1 = "run env (map SliceExpand ?names) ?st0"
  have st0: "raised ?st0 = None" "db_calls ?st0 = []"
    by (simp_all add: exec_stmt_def start_def)
  from run_expansions [OF assms st0]
  have e: "(\<exists>n \<in> set ?names. env n = Array [] \<and> raised ?st1 = Some (emptyMessage n))
           \<and> db_calls ?st1 = []" .
  then have "raised ?st1 \<noteq> None" by auto
  then have "run env (ParamsNew # map flattenStmt (CQ_Params q) @ sliceCall q) ?st1 = ?st1"
    by (rule run_raised)
  moreover have "run env (sliceBody q) start
      = run env (ParamsNew # map flattenStmt (CQ_Params q) @ sliceCall q) ?st1"
  proof -
    have b: "sliceBody q = [SqlAssign (CQ_SQL q)] @ map SliceExpand ?names
               @ (ParamsNew # map flattenStmt (CQ_Params q) @ sliceCall q)"
      by (simp add: sliceBody_def)
    have s: "run env [SqlAssign (CQ_SQL q)] (start :: 'v run_state) = ?st0"
      by (simp add: start_def)
    show ?thesis
      unfolding b run_append s ..
  qed
  ultimately show ?thesis using e by simp
qed

lemma zip_those:
  assumes "map f xs = map Some ys" and "x \<in> set xs"
  shows "\<exists>y. f x = Some y \<and> (x, y) \<in> set (zip xs ys)"
proof -
  from assms(1) have len: "length xs = length ys" by (metis length_map)
  from assms(2) obtain i where i: "i < length xs" "xs ! i = x" by (auto simp: in_set_conv_nth)
  from assms(1) i(1) len have "f (xs ! i) = Some (ys ! i)"
    by (metis nth_map)
  moreover from i(1) len have "(xs ! i, ys ! i) \<in> set (zip xs ys)"
    by (auto simp: set_zip)
  ultimately show ?thesis using i(2) by auto
qed

lemma slice_param_listed:
  assumes "those (map (queryParam g) params) = Some ps"
    and "param \<in> set params" and "Parameter_Column param = Some col" and "Column_IsSqlcSlice col"
  shows "\<exists>p. queryParam g param = Some p \<and> p \<in> set ps
             \<and> Param_Name p \<in> Slice_Name ` set (sliceParamsOf params ps)"
proof -
  from zip_those [OF those_map_Some [OF assms(1)] assms(2)]
  obtain p where p: "queryParam g param = Some p" "(param, p) \<in> set (zip params ps)" by blast
  from p(2) have "p \<in> set ps" by (rule set_zip_rightD)
  moreover from p(2) assms(3,4)
  have "\<lparr>Slice_Name = Param_Name p, Slice_Placeholder = ''$'' @ dec_int (Parameter_Number param)\<rparr>
          \<in> set (sliceParamsOf params ps)"
    by (force simp: sliceParamsOf_def)
  then have "Param_Name p \<in> Slice_Name ` set (sliceParamsOf params ps)"
    by force
  ultimately show ?thesis using p(1) by blast
qed

lemma slice_names_are_params:
  "sp \<in> set (sliceParamsOf params ps) \<Longrightarrow> \<exists>p \<in> set ps. Param_Name p = Slice_Name sp"
  by (auto simp: sliceParamsOf_def split: option.splits if_splits dest: set_zip_rightD)

lemma expandedNames_all:
  assumes "\<forall>sp \<in> set sliceParams. \<exists>p \<in> set params. Param_Name p = Slice_Name sp"
  shows "expandedNames params sliceParams = map Slice_Name sliceParams"
  using assms
proof (induction sliceParams)
  case Nil
  then show ?case by (simp add: expandedNames_def)
next
  case (Cons sp sps)
  from Cons.prems obtain p where "p \<in> set params" "Param_Name p = Slice_Name sp" by auto
  then obtain p' where "find (\<lambda>p. Param_Name p = Slice_Name sp) params = Some p'"
    by (cases "find (\<lambda>p. Param_Name p = Slice_Name sp) params") (auto simp: find_None_iff)
  moreover from this have "Param_Name p' = Slice_Name sp" by (auto simp: find_Some_iff)
  moreover from Cons have "expandedNames params sps = map Slice_Name sps" by simp
  ultimately show ?case by (simp add: expandedNames_def)
qed

lemma generateQuery_slices:
  assumes "generateQuery g query = Some q"
  shows "\<exists>ps. those (map (queryParam g) (Query_Params query)) = Some ps
              \<and> CQ_Params q = sort_by paramLess ps
              \<and> CQ_SliceParams q = sliceParamsOf (Query_Params query) ps
              \<and> CQ_UsesSQLCSlice q = (sliceParamsOf (Query_Params query) ps \<noteq> [])"
  using assms by (auto simp: generateQuery_def split: option.splits)

text \<open>
  What holds of every query with a \<open>sqlc.slice\<close> parameter.  Generated for MySQL or
  SQLite, the method takes the expanding branch and the parameter has
  its expansion there, under its name in the signature; and run with arrays for the slice
  parameters of which one is empty, the method raises the error of an empty one and no call
  has reached the database.
\<close>

lemma empty_slice_raises:
  fixes env :: "string \<Rightarrow> 'v arg"
  assumes "generateQuery g query = Some q"
    and "Engine (req g) = ''mysql'' \<or> Engine (req g) = ''sqlite''"
    and "param \<in> set (Query_Params query)"
    and "Parameter_Column param = Some col"
    and "Column_IsSqlcSlice col"
  shows "queryBody (Engine (req g)) q = Expanding (sliceBody q)
    \<and> (\<exists>p. queryParam g param = Some p
            \<and> Param_Name p \<in> set (expansionsOf (sliceBody q)))
    \<and> ((\<forall>n \<in> set (expansionsOf (sliceBody q)). \<exists>vs. env n = Array vs)
        \<and> (\<exists>n \<in> set (expansionsOf (sliceBody q)). env n = Array [])
       \<longrightarrow> (\<exists>n \<in> set (expansionsOf (sliceBody q)).
              env n = Array [] \<and> raised (run env (sliceBody q) start) = Some (emptyMessage n))
           \<and> db_calls (run env (sliceBody q) start) = [])"
proof -
  from generateQuery_slices [OF assms(1)] obtain ps
    where ps: "those (map (queryParam g) (Query_Params query)) = Some ps"
      and params: "CQ_Params q = sort_by paramLess ps"
      and slices: "CQ_SliceParams q = sliceParamsOf (Query_Params query) ps"
      and uses: "CQ_UsesSQLCSlice q = (sliceParamsOf (Query_Params query) ps \<noteq> [])" by blast
  from slice_param_listed [OF ps assms(3,4,5)] obtain p
    where p: "queryParam g param = Some p"
      "Param_Name p \<in> Slice_Name ` set (sliceParamsOf (Query_Params query) ps)" by blast
  have names: "expandedNames (sort_by paramLess ps) (sliceParamsOf (Query_Params query) ps)
                = map Slice_Name (sliceParamsOf (Query_Params query) ps)"
    by (rule expandedNames_all) (simp add: set_sort_by slice_names_are_params)
  from p(2) have "sliceParamsOf (Query_Params query) ps \<noteq> []" by auto
  with uses assms(2) have "needsSliceExpansion q (Engine (req g))"
    by (auto simp: needsSliceExpansion_def)
  then have 1: "queryBody (Engine (req g)) q = Expanding (sliceBody q)"
    by (simp add: queryBody_def)
  from p have 2: "\<exists>p. queryParam g param = Some p
            \<and> Param_Name p \<in> set (expansionsOf (sliceBody q))"
    unfolding expansionsOf_sliceBody params slices names by auto
  have 3: "(\<forall>n \<in> set (expansionsOf (sliceBody q)). \<exists>vs. env n = Array vs)
        \<and> (\<exists>n \<in> set (expansionsOf (sliceBody q)). env n = Array [])
       \<longrightarrow> (\<exists>n \<in> set (expansionsOf (sliceBody q)).
              env n = Array [] \<and> raised (run env (sliceBody q) start) = Some (emptyMessage n))
           \<and> db_calls (run env (sliceBody q) start) = []"
    unfolding expansionsOf_sliceBody using run_sliceBody_empty [of q env] by blast
  from 1 2 3 show ?thesis by blast
qed

text \<open>
  C3, at the MySQL statement \<open>DeleteBooksByAuthors\<close> with the parameter
  \<open>sqlc.slice('authorIds')\<close>.  The query text holds the marker
  \<open>/*SLICE:authorIds*/?\<close> once; the parameter is named \<open>author_ids\<close> in the signature,
  and the lines that \<open>expandSliceParams\<close> writes build the marker from that name: the
  emitted \<open>gsub\<close> looks for \<open>/*SLICE:author_ids*/?\<close>, which the text does not hold.
  Called with three values, the method replaces nothing and calls the database with the
  marker still in the text, one placeholder for three values.  The same statement with
  \<open>sqlc.slice('author_ids')\<close> gets \<open>IN (?, ?, ?)\<close>.
\<close>

theorem slice_marker_failing_input:
  "map_option (\<lambda>q. (needsSliceExpansion q ''mysql'', CQ_SQL q, paramList (CQ_Params q)))
      (generateQuery (ex_generator ''mysql'' False) ex_delete_by_authors)
     = Some (True, ''DELETE FROM books WHERE author_id IN (/*SLICE:authorIds*/?)'',
             ''author_ids : Array(Int64)'')
   \<and> occurrences ''DELETE FROM books WHERE author_id IN (/*SLICE:authorIds*/?)''
        ''/*SLICE:authorIds*/?'' = 1
   \<and> map_option (\<lambda>q. expandSliceParams (CQ_Params q) (CQ_SliceParams q))
      (generateQuery (ex_generator ''mysql'' False) ex_delete_by_authors)
     = Some (concat (map (\<lambda>line. CHR 0x0A # line)
          [''      # Expand array parameter author_ids for MySQL/SQLite'',
           ''      if author_ids.empty?'',
           ''        raise ArgumentError.new('' @ [CHR 0x22] @ ''slice parameter '' @ [CHR 0x27]
             @ ''author_ids'' @ [CHR 0x27] @ '' cannot be empty'' @ [CHR 0x22] @ '')'',
           ''      end'',
           ''      placeholders_author_ids = author_ids.size.times.map { '' @ [CHR 0x22] @ ''?''
             @ [CHR 0x22] @ '' }.join('' @ [CHR 0x22] @ '', '' @ [CHR 0x22] @ '')'',
           ''      sql = sql.gsub('' @ [CHR 0x22] @ ''/*SLICE:author_ids*/?'' @ [CHR 0x22]
             @ '', placeholders_author_ids)'']))
   \<and> map_option (queryBody ''mysql'')
      (generateQuery (ex_generator ''mysql'' False) ex_delete_by_authors)
     = Some (Expanding
               [SqlAssign ''DELETE FROM books WHERE author_id IN (/*SLICE:authorIds*/?)'',
                SliceExpand ''author_ids'', ParamsNew, ParamsConcat ''author_ids'',
                DbCall ''exec''])
   \<and> sliceMarker ''author_ids'' = ''/*SLICE:author_ids*/?''
   \<and> occurrences ''DELETE FROM books WHERE author_id IN (/*SLICE:authorIds*/?)''
        (sliceMarker ''author_ids'') = 0
   \<and> map_option (\<lambda>q. run ex_env_authors (sliceBody q) start)
      (generateQuery (ex_generator ''mysql'' False) ex_delete_by_authors)
     = Some \<lparr>sql = ''DELETE FROM books WHERE author_id IN (/*SLICE:authorIds*/?)'',
             query_params = [1, 2, 3],
             db_calls = [(''exec'', ''DELETE FROM books WHERE author_id IN (/*SLICE:authorIds*/?)'',
                          [1, 2, 3])],
             raised = None\<rparr>
   \<and> map_option (\<lambda>q. db_calls (run ex_env_authors (sliceBody q) start))
      (generateQuery (ex_generator ''mysql'' False) ex_delete_by_author_ids)
     = Some [(''exec'', ''DELETE FROM books WHERE author_id IN (?, ?, ?)'', [1, 2, 3])]"
  by code_simp

section \<open>Embedded tables\<close>

lemma embedFieldType_optional:
  "embedFieldType g query tableName
     = embedStructName g tableName
       @ (if Contains (ToUpper (Query_Text query)) ''LEFT JOIN''
             \<and> \<not> Contains (ToUpper (Query_Text query)) (''FROM '' @ ToUpper tableName)
          then ''?'' else [])"
  by (simp add: embedFieldType_def Let_def)

text \<open>
  C7, at a query that embeds \<open>authors\<close> and \<open>books\<close> under a \<open>RIGHT JOIN\<close>: the text
  holds an outer-join keyword and \<open>books\<close> is not the table after \<open>FROM\<close>, yet both
  embedded fields are typed without the optional marker.  The same query with
  \<open>LEFT JOIN\<close> gets \<open>Book?\<close>, and with \<open>LEFT OUTER JOIN\<close> again \<open>Book\<close>.
\<close>

theorem right_join_failing_input:
  "Contains (ToUpper (Query_Text ex_right_join)) ''RIGHT JOIN''
   \<and> \<not> Contains (ToUpper (Query_Text ex_right_join)) (''FROM '' @ ToUpper ''books'')
   \<and> map (\<lambda>f. (Field_Name f, Field_Type f))
        (queryFields (\<lambda>keys. keys) (ex_gen (Some ex_catalog) [ex_right_join]) ex_right_join)
      = [(''author'', ''Author''), (''book'', ''Book'')]
   \<and> map (\<lambda>f. (Field_Name f, Field_Type f))
        (queryFields (\<lambda>keys. keys) (ex_gen (Some ex_catalog) [ex_left_join]) ex_left_join)
      = [(''author'', ''Author''), (''book'', ''Book?'')]
   \<and> map (\<lambda>f. (Field_Name f, Field_Type f))
        (queryFields (\<lambda>keys. keys) (ex_gen (Some ex_catalog) [ex_left_outer_join])
           ex_left_outer_join)
      = [(''author'', ''Author''), (''book'', ''Book'')]"
  by code_simp

section \<open>Order of visit\<close>

lemma visits_id: "visits (\<lambda>keys. keys)"
  by (simp add: visits_def)

lemma visits_rev: "visits rev"
  by (simp add: visits_def)

text \<open>
  C8, at a request with a query on \<open>authors\<close>, a query on \<open>books\<close> and a query that
  embeds both: two runs that differ only in the order in which Go visits the keys of its
  maps emit the repository files in different orders and the fields of the embedding struct
  in different orders, so that the contents of \<open>models.cr\<close> differ.
\<close>

theorem map_order_failing_input:
  "visits (\<lambda>keys. keys) \<and> visits rev
   \<and> map_option (map fst)
        (generateRepositories (\<lambda>keys. keys) (ex_repo_gen (Some ex_catalog) [ex_get_author, ex_get_book, ex_left_join]))
      = Some [''repositories/authors_repository.cr'', ''repositories/books_repository.cr'']
   \<and> map_option (map fst)
        (generateRepositories rev (ex_repo_gen (Some ex_catalog) [ex_get_author, ex_get_book, ex_left_join]))
      = Some [''repositories/books_repository.cr'', ''repositories/authors_repository.cr'']
   \<and> map (\<lambda>s. (Struct_Name s, map Field_Name (Struct_Fields s)))
        (emittedStructs (\<lambda>i keys. keys) (ex_repo_gen (Some ex_catalog) [ex_get_author, ex_get_book, ex_left_join]) ex_catalog)
      = [(''Author'', [''id'', ''name'', ''bio'']), (''Book'', [''id'', ''author_id'', ''title'']),
         (''GetAuthorsWithBooksRow'', [''author'', ''book''])]
   \<and> map (\<lambda>s. (Struct_Name s, map Field_Name (Struct_Fields s)))
        (emittedStructs (\<lambda>i. rev) (ex_repo_gen (Some ex_catalog) [ex_get_author, ex_get_book, ex_left_join]) ex_catalog)
      = [(''Author'', [''id'', ''name'', ''bio'']), (''Book'', [''id'', ''author_id'', ''title'']),
         (''GetAuthorsWithBooksRow'', [''book'', ''author''])]
   \<and> map_option snd
        (generateModels (\<lambda>i keys. keys) (ex_repo_gen (Some ex_catalog) [ex_get_author, ex_get_book, ex_left_join]))
      \<noteq> map_option snd
        (generateModels (\<lambda>i. rev) (ex_repo_gen (Some ex_catalog) [ex_get_author, ex_get_book, ex_left_join]))"
proof -
  have 1: "map_option (map fst)
        (generateRepositories (\<lambda>keys. keys) (ex_repo_gen (Some ex_catalog) [ex_get_author, ex_get_book, ex_left_join]))
      = Some [''repositories/authors_repository.cr'', ''repositories/books_repository.cr'']"
    by code_simp
  have 2: "map_option (map fst)
        (generateRepositories rev (ex_repo_gen (Some ex_catalog) [ex_get_author, ex_get_book, ex_left_join]))
      = Some [''repositories/books_repository.cr'', ''repositories/authors_repository.cr'']"
    by code_simp
  have 3: "map (\<lambda>s. (Struct_Name s, map Field_Name (Struct_Fields s)))
        (emittedStructs (\<lambda>i keys. keys) (ex_repo_gen (Some ex_catalog) [ex_get_author, ex_get_book, ex_left_join]) ex_catalog)
      = [(''Author'', [''id'', ''name'', ''bio'']), (''Book'', [''id'', ''author_id'', ''title'']),
         (''GetAuthorsWithBooksRow'', [''author'', ''book''])]"
    by code_simp
  have 4: "map (\<lambda>s. (Struct_Name s, map Field_Name (Struct_Fields s)))
        (emittedStructs (\<lambda>i. rev) (ex_repo_gen (Some ex_catalog) [ex_get_author, ex_get_book, ex_left_join]) ex_catalog)
      = [(''Author'', [''id'', ''name'', ''bio'']), (''Book'', [''id'', ''author_id'', ''title'']),
         (''GetAuthorsWithBooksRow'', [''book'', ''author''])]"
    by code_simp
  have 5: "map_option snd
        (generateModels (\<lambda>i keys. keys) (ex_repo_gen (Some ex_catalog) [ex_get_author, ex_get_book, ex_left_join]))
      \<noteq> map_option snd
        (generateModels (\<lambda>i. rev) (ex_repo_gen (Some ex_catalog) [ex_get_author, ex_get_book, ex_left_join]))"
    by code_simp
  from visits_id visits_rev 1 2 3 4 5 show ?thesis by blast
qed

section \<open>The maps of generateModels\<close>

lemma put_keys_list:
  "map fst (put k v xs) = (if k \<in> fst ` set xs then map fst xs else map fst xs @ [k])"
  by (induction xs) force+

lemma put_set: "set (put k v xs) \<subseteq> insert (k, v) (set xs)"
  by (induction xs) (auto split: if_splits)

lemma put_distinct: "distinct (map fst xs) \<Longrightarrow> distinct (map fst (put k v xs))"
  by (simp add: put_keys_list)

lemma register_simps [simp]:
  "structs (register sig cs st) = put (Struct_Name cs) cs (structs st)"
  "fieldSignatures (register sig cs st) = (fieldSignatures st)(sig \<mapsto> Struct_Name cs)"
  "signatureToStruct (gen (register sig cs st)) = (signatureToStruct (gen st))(sig \<mapsto> Struct_Name cs)"
  "req (gen (register sig cs st)) = req (gen st)"
  "options (gen (register sig cs st)) = options (gen st)"
  by (simp_all add: register_def)

lemma baseType_cfg: "req g = req g' \<Longrightarrow> baseType g col = baseType g' col"
  by (simp add: baseType_def)

lemma crystalType_cfg:
  "req g = req g' \<Longrightarrow> options g = options g' \<Longrightarrow> crystalType g col = crystalType g' col"
  by (simp add: crystalType_def Let_def baseType_cfg [of g g'])

lemma columnField_cfg:
  "req g = req g' \<Longrightarrow> options g = options g' \<Longrightarrow> columnField g col = columnField g' col"
  by (simp add: columnField_def crystalType_cfg [of g g'])

lemma tableStruct_cfg:
  "req g = req g' \<Longrightarrow> options g = options g' \<Longrightarrow> tableStruct g t = tableStruct g' t"
  by (simp add: tableStruct_def columnField_cfg [of g g'])

lemma embedFields_cfg:
  "req g = req g' \<Longrightarrow> embedFields g query t cols = embedFields g' query t cols"
  by (simp add: embedFields_def embedFieldType_def embedStructName_def)

lemma queryFields_cfg:
  "req g = req g' \<Longrightarrow> options g = options g'
    \<Longrightarrow> queryFields visit g query = queryFields visit g' query"
  by (simp add: queryFields_def embedFields_cfg [of g g'] columnField_cfg [of g g']
        split: prod.splits cong: option.case_cong)

section \<open>The first pass\<close>

lemma addTable_inv:
  assumes "table_inv g T st" and "\<not> skipTable t \<and> Table_Columns t \<noteq> [] \<longrightarrow> t \<in> T"
  shows "table_inv g T (addTable st t)"
proof (cases "\<not> skipTable t \<and> Table_Columns t \<noteq> []")
  case False
  with assms(1) show ?thesis by (auto simp: addTable_def tableStruct_def Let_def)
next
  case True
  with assms(2) have t: "t \<in> T" by simp
  from assms(1) have cfg: "req (gen st) = req g" "options (gen st) = options g"
    by (simp_all add: table_inv_def)
  let ?cs = "tableStruct g t"
  from cfg have ts: "tableStruct (gen st) t = tableStruct g t" by (rule tableStruct_cfg)
  from True have f: "Struct_Fields ?cs \<noteq> []" by (simp add: tableStruct_def)
  with True ts have step: "addTable st t = register (fieldSig (Struct_Fields ?cs)) ?cs st"
    by (simp add: addTable_def Let_def)
  show ?thesis
    unfolding step table_inv_def
  proof (intro conjI allI impI)
    show "req (gen (register (fieldSig (Struct_Fields ?cs)) ?cs st)) = req g"
      using cfg by simp
    show "options (gen (register (fieldSig (Struct_Fields ?cs)) ?cs st)) = options g"
      using cfg by simp
    show "distinct (map fst (structs (register (fieldSig (Struct_Fields ?cs)) ?cs st)))"
      using assms(1) by (simp add: table_inv_def put_distinct)
  next
    fix k s
    assume m: "(k, s) \<in> set (structs (register (fieldSig (Struct_Fields ?cs)) ?cs st))"
    then have "(k, s) = (Struct_Name ?cs, ?cs) \<or> (k, s) \<in> set (structs st)"
      using put_set [of "Struct_Name ?cs" ?cs "structs st"] by auto
    then have "Struct_Name s = k \<and> s \<in> tableStruct g ` T \<and> Struct_Fields s \<noteq> []
         \<and> fieldSig (Struct_Fields s)
             \<in> dom (fieldSignatures (register (fieldSig (Struct_Fields ?cs)) ?cs st))"
    proof
      assume "(k, s) = (Struct_Name ?cs, ?cs)"
      with t f show ?thesis by auto
    next
      assume "(k, s) \<in> set (structs st)"
      with assms(1) show ?thesis by (auto simp: table_inv_def)
    qed
    then show "Struct_Name s = k" and "s \<in> tableStruct g ` T" and "Struct_Fields s \<noteq> []"
      and "fieldSig (Struct_Fields s)
             \<in> dom (fieldSignatures (register (fieldSig (Struct_Fields ?cs)) ?cs st))"
      by blast+
  next
    fix sig n
    assume "fieldSignatures (register (fieldSig (Struct_Fields ?cs)) ?cs st) sig = Some n"
    then have "(sig = fieldSig (Struct_Fields ?cs) \<and> n = Struct_Name ?cs)
               \<or> fieldSignatures st sig = Some n"
      by (auto split: if_splits)
    then show "\<exists>t \<in> T. sig = fieldSig (Struct_Fields (tableStruct g t))
                    \<and> n = Struct_Name (tableStruct g t)"
      using t assms(1) by (auto simp: table_inv_def)
  qed
qed

lemma foldl_addTable_inv:
  assumes "table_inv g T st"
    and "\<forall>t \<in> set ts. \<not> skipTable t \<and> Table_Columns t \<noteq> [] \<longrightarrow> t \<in> T"
  shows "table_inv g T (foldl addTable st ts)"
  using assms by (induction ts arbitrary: st) (auto intro: addTable_inv)

lemma in_registeredTables:
  "schema \<in> set schemas \<Longrightarrow> \<not> skipSchema schema \<Longrightarrow> t \<in> set (Schema_Tables schema)
    \<Longrightarrow> \<not> skipTable t \<Longrightarrow> Table_Columns t \<noteq> [] \<Longrightarrow> t \<in> set (registeredTables schemas)"
  by (auto simp: registeredTables_def)

lemma addSchema_inv:
  assumes "table_inv g T st"
    and "\<not> skipSchema schema \<longrightarrow>
           (\<forall>t \<in> set (Schema_Tables schema). \<not> skipTable t \<and> Table_Columns t \<noteq> [] \<longrightarrow> t \<in> T)"
  shows "table_inv g T (addSchema st schema)"
  using assms by (auto simp: addSchema_def intro: foldl_addTable_inv)

lemma foldl_addSchema_inv:
  assumes "table_inv g T st"
    and "\<forall>schema \<in> set schemas. \<not> skipSchema schema \<longrightarrow>
           (\<forall>t \<in> set (Schema_Tables schema). \<not> skipTable t \<and> Table_Columns t \<noteq> [] \<longrightarrow> t \<in> T)"
  shows "table_inv g T (foldl addSchema st schemas)"
  using assms by (induction schemas arbitrary: st) (auto intro: addSchema_inv)

lemma table_pass_inv:
  "table_inv g (set (registeredTables schemas))
     (foldl addSchema \<lparr>structs = [], fieldSignatures = Map.empty, gen = g\<rparr> schemas)"
proof (rule foldl_addSchema_inv)
  show "table_inv g (set (registeredTables schemas))
          \<lparr>structs = [], fieldSignatures = Map.empty, gen = g\<rparr>"
    by (simp add: table_inv_def)
  show "\<forall>schema \<in> set schemas. \<not> skipSchema schema \<longrightarrow>
           (\<forall>t \<in> set (Schema_Tables schema). \<not> skipTable t \<and> Table_Columns t \<noteq> []
              \<longrightarrow> t \<in> set (registeredTables schemas))"
    by (auto intro: in_registeredTables)
qed

section \<open>The second pass\<close>

lemma groupColumns_hasEmbeds_aux:
  "snd (snd (foldl groupStep (tc, sa, h) cols))
     = (h \<or> (\<exists>c \<in> set cols. Column_EmbedTable c \<noteq> None))"
  by (induction cols arbitrary: tc sa h) (auto simp: groupStep_def split: option.splits)

lemma groupColumns_hasEmbeds:
  "groupColumns cols = (tc, sa, h) \<Longrightarrow> h = (\<exists>c \<in> set cols. Column_EmbedTable c \<noteq> None)"
  using groupColumns_hasEmbeds_aux [of "[]" "[]" False cols] by (simp add: groupColumns_def)

lemma queryFields_plain:
  "\<not> hasEmbed query \<Longrightarrow> queryFields visit g query = map (columnField g) (Query_Columns query)"
  by (auto simp: queryFields_def hasEmbed_def split: prod.splits dest: groupColumns_hasEmbeds)

lemma table_imp_models: "table_inv g T st \<Longrightarrow> models_inv g (tableStruct g ` T) QS st"
  unfolding table_inv_def models_inv_def by blast

lemma addQuery_cases:
  "addQuery visit st query = st
   \<or> (Query_Columns query \<noteq> []
      \<and> fieldSignatures st (fieldSig (queryFields visit (gen st) query)) = None
      \<and> addQuery visit st query
          = register (fieldSig (queryFields visit (gen st) query))
              (queryStruct visit (gen st) query) st)"
  by (auto simp: addQuery_def queryStruct_def Let_def)

lemma queryStruct_cfg:
  "req g = req g' \<Longrightarrow> options g = options g'
    \<Longrightarrow> queryStruct visit g query = queryStruct visit g' query"
  by (simp add: queryStruct_def queryFields_cfg [of g g'])

lemma addQuery_inv:
  assumes inv: "models_inv g TS QS st"
    and q: "Query_Columns query \<noteq> [] \<longrightarrow> queryStruct visit g query \<in> QS"
  shows "models_inv g TS QS (addQuery visit st query)"
proof -
  let ?fs = "queryFields visit (gen st) query"
  let ?cs = "queryStruct visit (gen st) query"
  from inv have cfg: "req (gen st) = req g" "options (gen st) = options g"
    by (simp_all add: models_inv_def)
  then have cs: "?cs = queryStruct visit g query" by (rule queryStruct_cfg)
  have nm: "Struct_Name ?cs = queryStructName query" and fs: "Struct_Fields ?cs = ?fs"
    by (simp_all add: queryStruct_def)
  from addQuery_cases [of visit st query] show ?thesis
  proof
    assume "addQuery visit st query = st"
    with inv show ?thesis by simp
  next
    assume a: "Query_Columns query \<noteq> [] \<and> fieldSignatures st (fieldSig ?fs) = None
      \<and> addQuery visit st query = register (fieldSig ?fs) ?cs st"
    then have cols: "Query_Columns query \<noteq> []" and new: "fieldSignatures st (fieldSig ?fs) = None"
      and step: "addQuery visit st query = register (fieldSig ?fs) ?cs st" by blast+
    from cols q cs have inQS: "?cs \<in> QS" by simp
    have mem: "(k, s) = (queryStructName query, ?cs) \<or> (k, s) \<in> set (structs st)"
      if "(k, s) \<in> set (structs (register (fieldSig ?fs) ?cs st))" for k s
      using that put_set [of "queryStructName query" ?cs "structs st"] by (auto simp: nm)
    have old: "Struct_Name s = k \<and> fieldSig (Struct_Fields s) \<in> dom (fieldSignatures st)
        \<and> (s \<in> TS \<or> s \<in> QS)"
      if "(k, s) \<in> set (structs st)" for k s
      using that inv unfolding models_inv_def by blast
    show ?thesis
      unfolding step models_inv_def
    proof (intro conjI allI impI)
      show "req (gen (register (fieldSig ?fs) ?cs st)) = req g"
        using cfg by simp
      show "options (gen (register (fieldSig ?fs) ?cs st)) = options g"
        using cfg by simp
      show "distinct (map fst (structs (register (fieldSig ?fs) ?cs st)))"
        using inv by (simp add: models_inv_def put_distinct)
    next
      fix k s
      assume m: "(k, s) \<in> set (structs (register (fieldSig ?fs) ?cs st))"
      from mem [OF m]
      have "Struct_Name s = k
          \<and> fieldSig (Struct_Fields s) \<in> dom (fieldSignatures (register (fieldSig ?fs) ?cs st))
          \<and> (s \<in> TS \<or> s \<in> QS)"
      proof
        assume "(k, s) = (queryStructName query, ?cs)"
        with inQS nm fs show ?thesis by auto
      next
        assume "(k, s) \<in> set (structs st)"
        from old [OF this] show ?thesis by auto
      qed
      then show "Struct_Name s = k"
        and "fieldSig (Struct_Fields s) \<in> dom (fieldSignatures (register (fieldSig ?fs) ?cs st))"
        and "s \<in> TS \<or> s \<in> QS"
        by blast+
    next
      fix k1 s1 k2 s2
      assume p: "(k1, s1) \<in> set (structs (register (fieldSig ?fs) ?cs st))
          \<and> (k2, s2) \<in> set (structs (register (fieldSig ?fs) ?cs st)) \<and> k1 \<noteq> k2
          \<and> fieldSig (Struct_Fields s1) = fieldSig (Struct_Fields s2)"
      then have m1: "(k1, s1) = (queryStructName query, ?cs) \<or> (k1, s1) \<in> set (structs st)"
        and m2: "(k2, s2) = (queryStructName query, ?cs) \<or> (k2, s2) \<in> set (structs st)"
        using mem by blast+
      have both: "(k1, s1) \<in> set (structs st) \<and> (k2, s2) \<in> set (structs st)"
      proof (rule ccontr)
        assume n: "\<not> ((k1, s1) \<in> set (structs st) \<and> (k2, s2) \<in> set (structs st))"
        from p have ne: "k1 \<noteq> k2" and eq: "fieldSig (Struct_Fields s1) = fieldSig (Struct_Fields s2)"
          by blast+
        from n m1 m2 ne
        have "((k1, s1) = (queryStructName query, ?cs) \<and> (k2, s2) \<in> set (structs st))
            \<or> ((k2, s2) = (queryStructName query, ?cs) \<and> (k1, s1) \<in> set (structs st))"
          by auto
        then obtain k' s' where o: "(k', s') \<in> set (structs st)"
          and "fieldSig (Struct_Fields s') = fieldSig ?fs"
          using eq fs by auto
        with old [OF o] have "fieldSig ?fs \<in> dom (fieldSignatures st)" by simp
        with new show False by auto
      qed
      with p inv show "s1 \<in> TS" and "s2 \<in> TS"
        unfolding models_inv_def by blast+
    qed
  qed
qed

lemma queryPass_inv:
  assumes "models_inv g TS QS st"
    and "\<forall>j < length qs. Query_Columns (qs ! j) \<noteq> [] \<longrightarrow> queryStruct (visit (i + j)) g (qs ! j) \<in> QS"
  shows "models_inv g TS QS (queryPass visit i st qs)"
  using assms
proof (induction qs arbitrary: st i)
  case Nil
  then show ?case by simp
next
  case (Cons q qs)
  from Cons.prems(2) [rule_format, of 0]
  have q0: "Query_Columns q \<noteq> [] \<longrightarrow> queryStruct (visit i) g q \<in> QS" by simp
  have rest: "\<forall>j < length qs. Query_Columns (qs ! j) \<noteq> []
                \<longrightarrow> queryStruct (visit (Suc i + j)) g (qs ! j) \<in> QS"
  proof (intro allI impI)
    fix j
    assume "j < length qs" and "Query_Columns (qs ! j) \<noteq> []"
    with Cons.prems(2) [rule_format, of "Suc j"]
    show "queryStruct (visit (Suc i + j)) g (qs ! j) \<in> QS" by simp
  qed
  from addQuery_inv [OF Cons.prems(1) q0]
  have "models_inv g TS QS (addQuery (visit i) st q)" .
  from Cons.IH [OF this rest] show ?case by simp
qed

lemma modelsState_inv:
  "models_inv g (tableStruct g ` set (registeredTables schemas))
     {queryStruct (visit i) g (Queries (req g) ! i) | i.
        i < length (Queries (req g)) \<and> Query_Columns (Queries (req g) ! i) \<noteq> []}
     (modelsState visit g schemas)"
  unfolding modelsState_def
  by (rule queryPass_inv [OF table_imp_models [OF table_pass_inv]]) auto

lemma set_sortStructs: "set (sortStructs xs) = set xs"
  by (simp add: sortStructs_def set_sort_by)

lemma emitted_entries:
  "s \<in> set (emittedStructs visit g schemas)
     = (\<exists>k. (k, s) \<in> set (structs (modelsState visit g schemas)))"
  by (force simp: emittedStructs_def set_sortStructs)

lemma emitted_names:
  "mset (map Struct_Name (emittedStructs visit g schemas))
     = mset (map fst (structs (modelsState visit g schemas)))"
proof -
  let ?xs = "structs (modelsState visit g schemas)"
  from modelsState_inv [of g schemas visit]
  have "\<forall>p \<in> set ?xs. Struct_Name (snd p) = fst p"
    unfolding models_inv_def by auto
  then have "map (\<lambda>p. Struct_Name (snd p)) ?xs = map fst ?xs"
    by (intro map_cong) auto
  then have a: "mset (map (\<lambda>p. Struct_Name (snd p)) ?xs) = mset (map fst ?xs)"
    by (rule arg_cong)
  have "mset (emittedStructs visit g schemas) = mset (map snd ?xs)"
    by (simp add: emittedStructs_def sortStructs_def mset_sort_by)
  then have "mset (map Struct_Name (emittedStructs visit g schemas))
     = mset (map Struct_Name (map snd ?xs))"
    by (metis mset_map)
  also have "map Struct_Name (map snd ?xs) = map (\<lambda>p. Struct_Name (snd p)) ?xs"
    by (simp add: comp_def)
  finally show ?thesis using a by (rule trans)
qed

lemma generateModels_emits:
  assumes "Catalog (req g) = Some schemas"
  shows "\<exists>g'. generateModels visit g
          = Some (g', if emittedStructs visit g schemas = [] then None
                      else Some (''models.cr'',
                                 modelsText (pkg g) (options g) (emittedStructs visit g schemas)))"
proof -
  have "(emittedStructs visit g schemas = []) = (structs (modelsState visit g schemas) = [])"
    using set_sortStructs [of "map snd (structs (modelsState visit g schemas))"]
    by (auto simp: emittedStructs_def simp flip: set_empty)
  with assms show ?thesis by (simp add: generateModels_def Let_def)
qed

lemma tableStruct_fields:
  "t \<in> set (registeredTables schemas) \<Longrightarrow> Struct_Fields (tableStruct g t) \<noteq> []"
  by (auto simp: registeredTables_def tableStruct_def split: if_splits)

lemma queryStruct_fields:
  "\<not> hasEmbed query \<Longrightarrow> Query_Columns query \<noteq> []
    \<Longrightarrow> Struct_Fields (queryStruct visit g query) \<noteq> []"
  by (simp add: queryStruct_def queryFields_plain)

text \<open>
  C9, as the code has it.  The models file holds the sorted structs \<open>emittedStructs\<close>.
  No two of them have the same name.  Each of them is the struct built from a table that
  the first pass takes (\<open>tableStruct\<close> of a table of \<open>registeredTables\<close>) or the struct
  built from a query of the request that has result columns (\<open>queryStruct\<close>, with the
  order of visit of that query).  Two different ones with the same field signature are both
  structs built from tables: a struct built from a query never repeats a signature.  And
  one without fields is the struct built from a query that carries embed markers.
\<close>

theorem emitted_structs:
  assumes "Catalog (req g) = Some schemas"
  shows "(\<exists>g'. generateModels visit g
            = Some (g', if emittedStructs visit g schemas = [] then None
                        else Some (''models.cr'',
                                   modelsText (pkg g) (options g) (emittedStructs visit g schemas))))
    \<and> distinct (map Struct_Name (emittedStructs visit g schemas))
    \<and> (\<forall>s \<in> set (emittedStructs visit g schemas).
         s \<in> tableStruct g ` set (registeredTables schemas)
         \<or> (\<exists>i < length (Queries (req g)).
               Query_Columns (Queries (req g) ! i) \<noteq> []
               \<and> s = queryStruct (visit i) g (Queries (req g) ! i)))
    \<and> (\<forall>s1 \<in> set (emittedStructs visit g schemas). \<forall>s2 \<in> set (emittedStructs visit g schemas).
         s1 \<noteq> s2 \<and> fieldSig (Struct_Fields s1) = fieldSig (Struct_Fields s2)
         \<longrightarrow> s1 \<in> tableStruct g ` set (registeredTables schemas)
             \<and> s2 \<in> tableStruct g ` set (registeredTables schemas))
    \<and> (\<forall>s \<in> set (emittedStructs visit g schemas).
         Struct_Fields s = []
         \<longrightarrow> (\<exists>i < length (Queries (req g)).
                hasEmbed (Queries (req g) ! i)
                \<and> s = queryStruct (visit i) g (Queries (req g) ! i)))"
proof -
  let ?st = "modelsState visit g schemas"
  let ?qs = "Queries (req g)"
  note inv = modelsState_inv [of g schemas visit, unfolded models_inv_def]
  from inv have d: "distinct (map fst (structs ?st))" by blast
  from inv have n: "\<And>k s. (k, s) \<in> set (structs ?st) \<Longrightarrow> Struct_Name s = k" by blast
  have 1: "distinct (map Struct_Name (emittedStructs visit g schemas))"
    using d emitted_names [of visit g schemas] by (metis mset_eq_imp_distinct_iff)
  have 2: "\<forall>s \<in> set (emittedStructs visit g schemas).
         s \<in> tableStruct g ` set (registeredTables schemas)
         \<or> (\<exists>i < length ?qs. Query_Columns (?qs ! i) \<noteq> [] \<and> s = queryStruct (visit i) g (?qs ! i))"
  proof
    fix s
    assume "s \<in> set (emittedStructs visit g schemas)"
    then obtain k where "(k, s) \<in> set (structs ?st)" by (auto simp: emitted_entries)
    with inv have "s \<in> tableStruct g ` set (registeredTables schemas)
        \<or> s \<in> {queryStruct (visit i) g (?qs ! i) | i. i < length ?qs \<and> Query_Columns (?qs ! i) \<noteq> []}"
      by blast
    then show "s \<in> tableStruct g ` set (registeredTables schemas)
         \<or> (\<exists>i < length ?qs. Query_Columns (?qs ! i) \<noteq> [] \<and> s = queryStruct (visit i) g (?qs ! i))"
      by blast
  qed
  have 3: "\<forall>s1 \<in> set (emittedStructs visit g schemas). \<forall>s2 \<in> set (emittedStructs visit g schemas).
         s1 \<noteq> s2 \<and> fieldSig (Struct_Fields s1) = fieldSig (Struct_Fields s2)
         \<longrightarrow> s1 \<in> tableStruct g ` set (registeredTables schemas)
             \<and> s2 \<in> tableStruct g ` set (registeredTables schemas)"
  proof (intro ballI impI)
    fix s1 s2
    assume "s1 \<in> set (emittedStructs visit g schemas)" "s2 \<in> set (emittedStructs visit g schemas)"
      and a: "s1 \<noteq> s2 \<and> fieldSig (Struct_Fields s1) = fieldSig (Struct_Fields s2)"
    then obtain k1 k2 where k: "(k1, s1) \<in> set (structs ?st)" "(k2, s2) \<in> set (structs ?st)"
      by (auto simp: emitted_entries)
    have "k1 \<noteq> k2"
    proof
      assume "k1 = k2"
      with k d have "s1 = s2" by (metis eq_key_imp_eq_value)
      with a show False by simp
    qed
    with k a inv show "s1 \<in> tableStruct g ` set (registeredTables schemas)
             \<and> s2 \<in> tableStruct g ` set (registeredTables schemas)" by blast
  qed
  have 4: "\<forall>s \<in> set (emittedStructs visit g schemas).
         Struct_Fields s = []
         \<longrightarrow> (\<exists>i < length ?qs. hasEmbed (?qs ! i) \<and> s = queryStruct (visit i) g (?qs ! i))"
  proof (intro ballI impI)
    fix s
    assume s: "s \<in> set (emittedStructs visit g schemas)" and e: "Struct_Fields s = []"
    from 2 s have "s \<in> tableStruct g ` set (registeredTables schemas)
         \<or> (\<exists>i < length ?qs. Query_Columns (?qs ! i) \<noteq> [] \<and> s = queryStruct (visit i) g (?qs ! i))"
      by blast
    then show "\<exists>i < length ?qs. hasEmbed (?qs ! i) \<and> s = queryStruct (visit i) g (?qs ! i)"
    proof
      assume "s \<in> tableStruct g ` set (registeredTables schemas)"
      with e tableStruct_fields [of _ schemas g] show ?thesis by auto
    next
      assume "\<exists>i < length ?qs. Query_Columns (?qs ! i) \<noteq> [] \<and> s = queryStruct (visit i) g (?qs ! i)"
      then obtain i where i: "i < length ?qs" "Query_Columns (?qs ! i) \<noteq> []"
        "s = queryStruct (visit i) g (?qs ! i)" by blast
      have "hasEmbed (?qs ! i)"
      proof (rule ccontr)
        assume "\<not> hasEmbed (?qs ! i)"
        from queryStruct_fields [OF this i(2), of "visit i" g] i(3) e show False by simp
      qed
      with i show ?thesis by blast
    qed
  qed
  from generateModels_emits [OF assms] 1 2 3 4 show ?thesis by blast
qed

theorem emitted_structs_counterexample:
  "map (\<lambda>s. (Struct_Name s, fieldSig (Struct_Fields s)))
     (emittedStructs (\<lambda>i keys. keys) (ex_gen (Some ex_twins) [ex_get_user]) ex_twins)
   = [(''Member'', ''id:Int64;name:String;''), (''Tag'', ''label:String;''),
      (''User'', ''id:Int64;name:String;'')]"
  by code_simp

theorem emitted_structs_witness:
  "Catalog (req (ex_gen (Some ex_twins) [ex_get_user, ex_list_labels, ex_shadowed])) = Some ex_twins
   \<and> map Struct_Name
        (emittedStructs (\<lambda>i keys. keys)
           (ex_gen (Some ex_twins) [ex_get_user, ex_list_labels, ex_shadowed]) ex_twins)
      = [''GetUserWithIdRow'', ''Member'', ''Tag'', ''User'']
   \<and> distinct [''GetUserWithIdRow'', ''Member'', ''Tag'', ''User'']
   \<and> tableStruct (ex_gen (Some ex_twins) [ex_get_user, ex_list_labels, ex_shadowed]) ex_users
        \<in> tableStruct (ex_gen (Some ex_twins) [ex_get_user, ex_list_labels, ex_shadowed])
            ` set (registeredTables ex_twins)
   \<and> (\<exists>i < length (Queries (req (ex_gen (Some ex_twins) [ex_get_user, ex_list_labels, ex_shadowed]))).
         hasEmbed (Queries (req (ex_gen (Some ex_twins) [ex_get_user, ex_list_labels, ex_shadowed])) ! i)
         \<and> \<lparr>Struct_Name = ''GetUserWithIdRow'', Struct_TableName = [], Struct_Fields = []\<rparr>
           = queryStruct (\<lambda>keys. keys) (ex_gen (Some ex_twins) [ex_get_user, ex_list_labels, ex_shadowed])
               (Queries (req (ex_gen (Some ex_twins) [ex_get_user, ex_list_labels, ex_shadowed])) ! i))"
proof -
  let ?g = "ex_gen (Some ex_twins) [ex_get_user, ex_list_labels, ex_shadowed]"
  let ?es = "emittedStructs (\<lambda>i keys. keys) ?g ex_twins"
  let ?z = "\<lparr>Struct_Name = ''GetUserWithIdRow'', Struct_TableName = [], Struct_Fields = []\<rparr>"
  have c: "Catalog (req ?g) = Some ex_twins"
    by (simp add: ex_gen_def ex_request_def NewGenerator_def)
  have n: "map Struct_Name ?es = [''GetUserWithIdRow'', ''Member'', ''Tag'', ''User'']"
    by code_simp
  have u: "tableStruct ?g ex_users \<in> set ?es" by code_simp
  have m: "tableStruct ?g ex_members \<in> set ?es" by code_simp
  have d: "tableStruct ?g ex_users \<noteq> tableStruct ?g ex_members
           \<and> fieldSig (Struct_Fields (tableStruct ?g ex_users))
               = fieldSig (Struct_Fields (tableStruct ?g ex_members))"
    by code_simp
  have z: "?z \<in> set ?es" by code_simp
  note t = emitted_structs [OF c, of "\<lambda>i keys. keys"]
  from t n have 1: "distinct [''GetUserWithIdRow'', ''Member'', ''Tag'', ''User'']" by metis
  from t u m d have 2: "tableStruct ?g ex_users \<in> tableStruct ?g ` set (registeredTables ex_twins)"
    by blast
  from t z have "\<exists>i < length (Queries (req ?g)).
         hasEmbed (Queries (req ?g) ! i) \<and> ?z = queryStruct (\<lambda>keys. keys) ?g (Queries (req ?g) ! i)"
    by force
  with c n 1 2 show ?thesis by blast
qed

section \<open>Struct names of queries\<close>

lemma addTable_sync:
  "fieldSignatures st = signatureToStruct (gen st)
    \<Longrightarrow> fieldSignatures (addTable st t) = signatureToStruct (gen (addTable st t))"
  by (simp add: addTable_def Let_def)

lemma addSchema_sync:
  "fieldSignatures st = signatureToStruct (gen st)
    \<Longrightarrow> fieldSignatures (addSchema st schema) = signatureToStruct (gen (addSchema st schema))"
proof -
  have "fieldSignatures st = signatureToStruct (gen st)
    \<Longrightarrow> fieldSignatures (foldl addTable st ts) = signatureToStruct (gen (foldl addTable st ts))" for ts
    by (induction ts arbitrary: st) (auto simp: addTable_sync)
  then show "fieldSignatures st = signatureToStruct (gen st)
    \<Longrightarrow> fieldSignatures (addSchema st schema) = signatureToStruct (gen (addSchema st schema))"
    by (simp add: addSchema_def)
qed

lemma addQuery_sync:
  "fieldSignatures st = signatureToStruct (gen st)
    \<Longrightarrow> fieldSignatures (addQuery visit st query) = signatureToStruct (gen (addQuery visit st query))"
  by (simp add: addQuery_def Let_def)

lemma modelsState_sync:
  assumes "signatureToStruct g = Map.empty"
  shows "fieldSignatures (modelsState visit g schemas)
           = signatureToStruct (gen (modelsState visit g schemas))"
proof -
  have s: "fieldSignatures st = signatureToStruct (gen st)
    \<Longrightarrow> fieldSignatures (foldl addSchema st ss) = signatureToStruct (gen (foldl addSchema st ss))"
    for st ss
    by (induction ss arbitrary: st) (auto simp: addSchema_sync)
  have q: "fieldSignatures st = signatureToStruct (gen st)
    \<Longrightarrow> fieldSignatures (queryPass visit i st qs) = signatureToStruct (gen (queryPass visit i st qs))"
    for st qs i
    by (induction qs arbitrary: st i) (auto simp: addQuery_sync)
  show ?thesis
    unfolding modelsState_def using assms by (intro q s) simp
qed

lemma addQuery_keeps:
  "fieldSignatures st sig = Some n \<Longrightarrow> fieldSignatures (addQuery visit st query) sig = Some n"
  using addQuery_cases [of visit st query] by auto

lemma queryPass_keeps:
  "fieldSignatures st sig = Some n \<Longrightarrow> fieldSignatures (queryPass visit i st qs) sig = Some n"
  by (induction qs arbitrary: st i) (auto simp: addQuery_keeps)

lemma addQuery_cfg:
  "req (gen (addQuery visit st query)) = req (gen st)
   \<and> options (gen (addQuery visit st query)) = options (gen st)"
  using addQuery_cases [of visit st query] by auto

lemma addQuery_registers:
  assumes "\<not> hasEmbed query" and "Query_Columns query \<noteq> []"
    and "Query_Cmd query = '':one'' \<or> Query_Cmd query = '':many''"
  shows "fieldSig (map (columnField (gen st)) (Query_Columns query))
           \<in> dom (fieldSignatures (addQuery visit st query))"
  using assms by (auto simp: addQuery_def Let_def queryFields_plain)

lemma queryPass_registers:
  assumes "query \<in> set qs" and "\<not> hasEmbed query" and "Query_Columns query \<noteq> []"
    and "Query_Cmd query = '':one'' \<or> Query_Cmd query = '':many''"
    and "req (gen st) = req g" and "options (gen st) = options g"
  shows "fieldSig (map (columnField g) (Query_Columns query))
           \<in> dom (fieldSignatures (queryPass visit i st qs))"
  using assms(1,5,6)
proof (induction qs arbitrary: st i)
  case Nil
  then show ?case by simp
next
  case (Cons q qs)
  have cf: "map (columnField (gen st)) (Query_Columns query) = map (columnField g) (Query_Columns query)"
    using Cons.prems(2,3) by (simp add: columnField_cfg [of "gen st" g])
  show ?case
  proof (cases "query = q")
    case True
    from addQuery_registers [OF assms(2,3,4), of st "visit i"]
    have "fieldSig (map (columnField g) (Query_Columns query))
            \<in> dom (fieldSignatures (addQuery (visit i) st query))"
      unfolding cf .
    with True obtain n where "fieldSignatures (addQuery (visit i) st q)
                      (fieldSig (map (columnField g) (Query_Columns query))) = Some n"
      by blast
    from queryPass_keeps [OF this] show ?thesis by auto
  next
    case False
    with Cons.prems(1) have "query \<in> set qs" by simp
    from Cons.IH [OF this, of "addQuery (visit i) st q" "Suc i"] Cons.prems(2,3)
      addQuery_cfg [of "visit i" st q]
    show ?thesis by simp
  qed
qed

lemma table_pass_cfg:
  "req (gen (foldl addSchema \<lparr>structs = [], fieldSignatures = Map.empty, gen = g\<rparr> schemas)) = req g
   \<and> options (gen (foldl addSchema \<lparr>structs = [], fieldSignatures = Map.empty, gen = g\<rparr> schemas))
       = options g"
  using table_pass_inv [of g schemas] by (simp add: table_inv_def)

lemma modelsState_cfg:
  "req (gen (modelsState visit g schemas)) = req g
   \<and> options (gen (modelsState visit g schemas)) = options g"
  using modelsState_inv [of g schemas visit] by (simp add: models_inv_def)

lemma fieldSig_columns:
  "fieldSig (map (columnField g) cols)
     = concat (map (\<lambda>c. toSnakeCase (Column_Name c) @ '':'' @ crystalType g c @ '';'') cols)"
  by (simp add: fieldSig_def columnField_def comp_def)

lemma same_columns_same_sig:
  assumes "map (\<lambda>c. (Column_Name c, crystalType g c)) cols1
         = map (\<lambda>c. (Column_Name c, crystalType g c)) cols2"
  shows "fieldSig (map (columnField g) cols1) = fieldSig (map (columnField g) cols2)"
proof -
  have "map (\<lambda>c. toSnakeCase (Column_Name c) @ '':'' @ crystalType g c @ '';'') cols
      = map (\<lambda>(n, t). toSnakeCase n @ '':'' @ t @ '';'') (map (\<lambda>c. (Column_Name c, crystalType g c)) cols)"
    for cols by simp
  with assms show ?thesis by (simp only: fieldSig_columns)
qed

lemma Generate_models_state:
  assumes "Catalog (req g) = Some schemas" and "schemas \<noteq> []"
  shows "fst (Generate_models visit g) = gen (modelsState visit g schemas)"
  using assms by (simp add: Generate_models_def generateModels_def Let_def)

lemma addTable_cfg:
  "req (gen (addTable st t)) = req (gen st) \<and> options (gen (addTable st t)) = options (gen st)"
  by (simp add: addTable_def Let_def)

lemma foldl_addTable_cfg:
  "req (gen (foldl addTable st ts)) = req (gen st)
   \<and> options (gen (foldl addTable st ts)) = options (gen st)"
  by (induction ts arbitrary: st) (auto simp: addTable_cfg)

lemma addSchema_cfg:
  "req (gen (addSchema st schema)) = req (gen st)
   \<and> options (gen (addSchema st schema)) = options (gen st)"
  by (simp add: addSchema_def foldl_addTable_cfg)

lemma getStructNameForQuery_cfg:
  assumes "req g' = req g" and "options g' = options g"
  shows "getStructNameForQuery g' query
    = (if length (Query_Columns query) \<le> 1 then []
       else case signatureToStruct g' (fieldSig (map (columnField g) (Query_Columns query))) of
              Some structName \<Rightarrow> structName
            | None \<Rightarrow> queryStructName query)"
proof -
  have "map (columnField g') (Query_Columns query) = map (columnField g) (Query_Columns query)"
    using assms by (simp add: columnField_cfg [of g' g])
  then show ?thesis by (simp only: getStructNameForQuery_def Let_def)
qed

lemma foldl_addSchema_cfg:
  "req (gen (foldl addSchema st ss)) = req (gen st)
   \<and> options (gen (foldl addSchema st ss)) = options (gen st)"
  by (induction ss arbitrary: st) (auto simp: addSchema_cfg)

lemma addTable_signature:
  assumes "req (gen st) = req g" and "options (gen st) = options g"
  shows "fieldSignatures (addTable st t) sig =
      (if \<not> skipTable t \<and> Table_Columns t \<noteq> []
          \<and> fieldSig (Struct_Fields (tableStruct g t)) = sig
       then Some (Struct_Name (tableStruct g t)) else fieldSignatures st sig)"
proof -
  from assms have ts: "tableStruct (gen st) t = tableStruct g t" by (rule tableStruct_cfg)
  have f: "(Struct_Fields (tableStruct g t) \<noteq> []) = (Table_Columns t \<noteq> [])"
    by (simp add: tableStruct_def)
  show ?thesis
    unfolding addTable_def Let_def ts f by simp
qed

lemma foldl_addTable_signature:
  assumes "req (gen st) = req g" and "options (gen st) = options g"
  shows "fieldSignatures (foldl addTable st ts) sig =
      (let xs = filter (\<lambda>t. \<not> skipTable t \<and> Table_Columns t \<noteq> []
                            \<and> fieldSig (Struct_Fields (tableStruct g t)) = sig) ts
       in if xs = [] then fieldSignatures st sig
          else Some (Struct_Name (tableStruct g (last xs))))"
proof (induction ts rule: rev_induct)
  case Nil
  show ?case by simp
next
  case (snoc t ts)
  from assms foldl_addTable_cfg [of st ts]
  have cfg: "req (gen (foldl addTable st ts)) = req g" "options (gen (foldl addTable st ts)) = options g"
    by simp_all
  show ?case
    by (simp add: addTable_signature [OF cfg] snoc Let_def)
qed

lemma registeredTables_snoc:
  "registeredTables (ss @ [s])
     = registeredTables ss
       @ (if skipSchema s then []
          else filter (\<lambda>t. \<not> skipTable t \<and> Table_Columns t \<noteq> []) (Schema_Tables s))"
  by (simp add: registeredTables_def)

lemma addSchema_skip: "skipSchema s \<Longrightarrow> addSchema st s = st"
  by (simp add: addSchema_def)

lemma addSchema_tables: "\<not> skipSchema s \<Longrightarrow> addSchema st s = foldl addTable st (Schema_Tables s)"
  by (simp add: addSchema_def)

lemma tablesWithSignature_snoc:
  "tablesWithSignature g (ss @ [s]) sig
     = tablesWithSignature g ss sig
       @ (if skipSchema s then []
          else filter (\<lambda>t. \<not> skipTable t \<and> Table_Columns t \<noteq> []
                            \<and> fieldSig (Struct_Fields (tableStruct g t)) = sig) (Schema_Tables s))"
  by (simp add: tablesWithSignature_def registeredTables_snoc conj_ac cong: conj_cong)

lemma foldl_addSchema_signature:
  assumes "req (gen st) = req g" and "options (gen st) = options g"
  shows "fieldSignatures (foldl addSchema st ss) sig =
      (if tablesWithSignature g ss sig = [] then fieldSignatures st sig
       else Some (Struct_Name (tableStruct g (last (tablesWithSignature g ss sig)))))"
proof (induction ss rule: rev_induct)
  case Nil
  show ?case by (simp add: tablesWithSignature_def registeredTables_def)
next
  case (snoc s ss)
  let ?st = "foldl addSchema st ss"
  from assms foldl_addSchema_cfg [of st ss]
  have cfg: "req (gen ?st) = req g" "options (gen ?st) = options g" by simp_all
  have step: "foldl addSchema st (ss @ [s]) = addSchema ?st s" by simp
  show ?case
  proof (cases "skipSchema s")
    case True
    then show ?thesis
      unfolding step addSchema_skip [OF True] tablesWithSignature_snoc using snoc by simp
  next
    case False
    let ?new = "filter (\<lambda>t. \<not> skipTable t \<and> Table_Columns t \<noteq> []
                            \<and> fieldSig (Struct_Fields (tableStruct g t)) = sig) (Schema_Tables s)"
    have t: "tablesWithSignature g (ss @ [s]) sig = tablesWithSignature g ss sig @ ?new"
      using False by (simp add: tablesWithSignature_snoc)
    have "fieldSignatures (foldl addTable ?st (Schema_Tables s)) sig
        = (if ?new = [] then fieldSignatures ?st sig
           else Some (Struct_Name (tableStruct g (last ?new))))"
      using foldl_addTable_signature [OF cfg, of "Schema_Tables s" sig] by (simp add: Let_def)
    then show ?thesis
      unfolding step addSchema_tables [OF False] t using snoc by simp
  qed
qed

text \<open>
  C1, as the code has it.  For a request whose catalog has a schema (the models are then
  generated before the queries): two \<open>:one\<close> or \<open>:many\<close> queries of the request with
  the same sequence of column names and mapped types, one of them without embed markers,
  get the same struct name; and a query with two or more result columns whose signature is
  that of the struct of a table (one the first pass makes a struct of) gets the struct name
  of the last table with this signature, in the order of the catalog.
\<close>

theorem struct_name_dedup:
  assumes "Catalog r = Some schemas" and "schemas \<noteq> []"
  shows "(\<forall>q1 \<in> set (Queries r). \<forall>q2 \<in> set (Queries r).
            (Query_Cmd q1 = '':one'' \<or> Query_Cmd q1 = '':many'')
            \<and> (Query_Cmd q2 = '':one'' \<or> Query_Cmd q2 = '':many'')
            \<and> map (\<lambda>c. (Column_Name c, crystalType (NewGenerator r p opts) c)) (Query_Columns q1)
              = map (\<lambda>c. (Column_Name c, crystalType (NewGenerator r p opts) c)) (Query_Columns q2)
            \<and> \<not> hasEmbed q1
            \<longrightarrow> getStructNameForQuery (fst (Generate_models visit (NewGenerator r p opts))) q1
              = getStructNameForQuery (fst (Generate_models visit (NewGenerator r p opts))) q2)
    \<and> (\<forall>q \<in> set (Queries r).
            length (Query_Columns q) > 1
            \<and> tablesWithSignature (NewGenerator r p opts) schemas
                  (fieldSig (map (columnField (NewGenerator r p opts)) (Query_Columns q))) \<noteq> []
            \<longrightarrow> getStructNameForQuery (fst (Generate_models visit (NewGenerator r p opts))) q
                  = Struct_Name (tableStruct (NewGenerator r p opts)
                      (last (tablesWithSignature (NewGenerator r p opts) schemas
                         (fieldSig (map (columnField (NewGenerator r p opts)) (Query_Columns q)))))))"
proof -
  let ?g = "NewGenerator r p opts"
  let ?st1 = "foldl addSchema \<lparr>structs = [], fieldSignatures = Map.empty, gen = ?g\<rparr> schemas"
  let ?st = "modelsState visit ?g schemas"
  let ?g' = "fst (Generate_models visit ?g)"
  have r: "req ?g = r" by (simp add: NewGenerator_def)
  from assms r have g': "?g' = gen ?st"
    by (simp add: Generate_models_state)
  have sync: "fieldSignatures ?st = signatureToStruct ?g'"
    unfolding g' by (rule modelsState_sync) (simp add: NewGenerator_def)
  have cfg: "req ?g' = req ?g" "options ?g' = options ?g"
    unfolding g' using modelsState_cfg [of visit ?g schemas] by simp_all
  note name = getStructNameForQuery_cfg [OF cfg]
  have st: "?st = queryPass visit 0 ?st1 (Queries r)"
    by (simp add: modelsState_def r)
  have 1: "\<forall>q1 \<in> set (Queries r). \<forall>q2 \<in> set (Queries r).
            (Query_Cmd q1 = '':one'' \<or> Query_Cmd q1 = '':many'')
            \<and> (Query_Cmd q2 = '':one'' \<or> Query_Cmd q2 = '':many'')
            \<and> map (\<lambda>c. (Column_Name c, crystalType ?g c)) (Query_Columns q1)
              = map (\<lambda>c. (Column_Name c, crystalType ?g c)) (Query_Columns q2)
            \<and> \<not> hasEmbed q1
            \<longrightarrow> getStructNameForQuery ?g' q1 = getStructNameForQuery ?g' q2"
  proof (intro ballI impI)
    fix q1 q2
    assume q1: "q1 \<in> set (Queries r)" and q2: "q2 \<in> set (Queries r)"
      and a: "(Query_Cmd q1 = '':one'' \<or> Query_Cmd q1 = '':many'')
            \<and> (Query_Cmd q2 = '':one'' \<or> Query_Cmd q2 = '':many'')
            \<and> map (\<lambda>c. (Column_Name c, crystalType ?g c)) (Query_Columns q1)
              = map (\<lambda>c. (Column_Name c, crystalType ?g c)) (Query_Columns q2)
            \<and> \<not> hasEmbed q1"
    then have cols: "map (\<lambda>c. (Column_Name c, crystalType ?g c)) (Query_Columns q1)
              = map (\<lambda>c. (Column_Name c, crystalType ?g c)) (Query_Columns q2)" by blast
    then have len: "length (Query_Columns q1) = length (Query_Columns q2)"
      by (rule map_eq_imp_length_eq)
    from cols have sig: "fieldSig (map (columnField ?g) (Query_Columns q1))
                       = fieldSig (map (columnField ?g) (Query_Columns q2))"
      by (rule same_columns_same_sig)
    show "getStructNameForQuery ?g' q1 = getStructNameForQuery ?g' q2"
    proof (cases "length (Query_Columns q1) \<le> 1")
      case True
      with len show ?thesis by (simp add: name)
    next
      case False
      then have ne: "Query_Columns q1 \<noteq> []" by auto
      from a have e: "\<not> hasEmbed q1" and c: "Query_Cmd q1 = '':one'' \<or> Query_Cmd q1 = '':many''"
        by blast+
      from queryPass_registers [OF q1 e ne c, of ?st1 ?g visit 0] table_pass_cfg [of ?g schemas]
      have "fieldSig (map (columnField ?g) (Query_Columns q1)) \<in> dom (fieldSignatures ?st)"
        unfolding st by blast
      then obtain n where "signatureToStruct ?g' (fieldSig (map (columnField ?g) (Query_Columns q1))) = Some n"
        unfolding sync by blast
      with False len sig show ?thesis by (simp add: name)
    qed
  qed
  have 2: "\<forall>q \<in> set (Queries r).
            length (Query_Columns q) > 1
            \<and> tablesWithSignature ?g schemas (fieldSig (map (columnField ?g) (Query_Columns q))) \<noteq> []
            \<longrightarrow> getStructNameForQuery ?g' q
                  = Struct_Name (tableStruct ?g
                      (last (tablesWithSignature ?g schemas
                         (fieldSig (map (columnField ?g) (Query_Columns q))))))"
  proof (intro ballI impI)
    fix q :: Query
    let ?sig = "fieldSig (map (columnField ?g) (Query_Columns q))"
    assume a: "length (Query_Columns q) > 1 \<and> tablesWithSignature ?g schemas ?sig \<noteq> []"
    from a foldl_addSchema_signature [of "\<lparr>structs = [], fieldSignatures = Map.empty, gen = ?g\<rparr>" ?g schemas ?sig]
    have "fieldSignatures ?st1 ?sig
            = Some (Struct_Name (tableStruct ?g (last (tablesWithSignature ?g schemas ?sig))))"
      by simp
    from queryPass_keeps [OF this, of visit 0 "Queries r"]
    have "signatureToStruct ?g' ?sig
            = Some (Struct_Name (tableStruct ?g (last (tablesWithSignature ?g schemas ?sig))))"
      unfolding st [symmetric] sync .
    with a show "getStructNameForQuery ?g' q
                  = Struct_Name (tableStruct ?g (last (tablesWithSignature ?g schemas ?sig)))"
      by (simp add: name)
  qed
  from 1 2 show ?thesis by blast
qed

theorem struct_name_dedup_witness:
  "getStructNameForQuery
      (fst (Generate_models (\<lambda>i keys. keys)
         (NewGenerator (ex_request ''postgresql'' (Some ex_catalog) [ex_get_author, ex_create_author])
            ''db'' (ex_genopts False)))) ex_get_author
   = getStructNameForQuery
      (fst (Generate_models (\<lambda>i keys. keys)
         (NewGenerator (ex_request ''postgresql'' (Some ex_catalog) [ex_get_author, ex_create_author])
            ''db'' (ex_genopts False)))) ex_create_author
   \<and> tablesWithSignature
        (NewGenerator (ex_request ''postgresql'' (Some ex_twins) [ex_get_user]) ''db'' (ex_genopts False))
        ex_twins
        (fieldSig (map (columnField
           (NewGenerator (ex_request ''postgresql'' (Some ex_twins) [ex_get_user]) ''db'' (ex_genopts False)))
           (Query_Columns ex_get_user)))
      = [ex_users, ex_members]
   \<and> getStructNameForQuery
        (fst (Generate_models (\<lambda>i keys. keys)
           (NewGenerator (ex_request ''postgresql'' (Some ex_twins) [ex_get_user]) ''db'' (ex_genopts False))))
        ex_get_user
      = Struct_Name (tableStruct
          (NewGenerator (ex_request ''postgresql'' (Some ex_twins) [ex_get_user]) ''db'' (ex_genopts False))
          ex_members)"
proof -
  let ?r = "ex_request ''postgresql'' (Some ex_catalog) [ex_get_author, ex_create_author]"
  let ?g = "NewGenerator ?r ''db'' (ex_genopts False)"
  let ?r2 = "ex_request ''postgresql'' (Some ex_twins) [ex_get_user]"
  let ?g2 = "NewGenerator ?r2 ''db'' (ex_genopts False)"
  have c: "Catalog ?r = Some ex_catalog" by (simp add: ex_request_def)
  have n: "ex_catalog \<noteq> []" by (simp add: ex_catalog_def)
  have q1: "ex_get_author \<in> set (Queries ?r)" by (simp add: ex_request_def)
  have q2: "ex_create_author \<in> set (Queries ?r)" by (simp add: ex_request_def)
  have a1: "(Query_Cmd ex_get_author = '':one'' \<or> Query_Cmd ex_get_author = '':many'')
      \<and> (Query_Cmd ex_create_author = '':one'' \<or> Query_Cmd ex_create_author = '':many'')
      \<and> map (\<lambda>c. (Column_Name c, crystalType ?g c)) (Query_Columns ex_get_author)
        = map (\<lambda>c. (Column_Name c, crystalType ?g c)) (Query_Columns ex_create_author)
      \<and> \<not> hasEmbed ex_get_author"
    by code_simp
  note th = struct_name_dedup [OF c n, of "''db''" "ex_genopts False" "\<lambda>i keys. keys"]
  from th q1 q2 a1
  have 1: "getStructNameForQuery (fst (Generate_models (\<lambda>i keys. keys) ?g)) ex_get_author
         = getStructNameForQuery (fst (Generate_models (\<lambda>i keys. keys) ?g)) ex_create_author"
    by blast
  have c2: "Catalog ?r2 = Some ex_twins" by (simp add: ex_request_def)
  have n2: "ex_twins \<noteq> []" by (simp add: ex_twins_def)
  have q: "ex_get_user \<in> set (Queries ?r2)" by (simp add: ex_request_def)
  have l: "length (Query_Columns ex_get_user) > 1" by code_simp
  have ts: "tablesWithSignature ?g2 ex_twins
              (fieldSig (map (columnField ?g2) (Query_Columns ex_get_user)))
            = [ex_users, ex_members]"
    by code_simp
  note th2 = struct_name_dedup [OF c2 n2, of "''db''" "ex_genopts False" "\<lambda>i keys. keys"]
  from th2 q l ts
  have "getStructNameForQuery (fst (Generate_models (\<lambda>i keys. keys) ?g2)) ex_get_user
         = Struct_Name (tableStruct ?g2 (last [ex_users, ex_members]))"
    by force
  then have 2: "getStructNameForQuery (fst (Generate_models (\<lambda>i keys. keys) ?g2)) ex_get_user
         = Struct_Name (tableStruct ?g2 ex_members)"
    by simp
  from 1 ts 2 show ?thesis by blast
qed

theorem struct_name_dedup_counterexample:
  "map (\<lambda>c. (Column_Name c, crystalType (ex_gen None [ex_get_author, ex_create_author]) c))
       (Query_Columns ex_get_author)
     = map (\<lambda>c. (Column_Name c, crystalType (ex_gen None [ex_get_author, ex_create_author]) c))
       (Query_Columns ex_create_author)
   \<and> getStructNameForQuery
        (fst (Generate_models (\<lambda>i keys. keys) (ex_gen None [ex_get_author, ex_create_author])))
        ex_get_author = ''GetAuthorRow''
   \<and> getStructNameForQuery
        (fst (Generate_models (\<lambda>i keys. keys) (ex_gen None [ex_get_author, ex_create_author])))
        ex_create_author = ''CreateAuthorRow''
   \<and> fieldSig (map (columnField (ex_gen (Some ex_twins) [ex_get_user, ex_list_labels]))
                  (Query_Columns ex_get_user))
     = fieldSig (Struct_Fields (tableStruct (ex_gen (Some ex_twins) [ex_get_user, ex_list_labels]) ex_users))
   \<and> Struct_Name (tableStruct (ex_gen (Some ex_twins) [ex_get_user, ex_list_labels]) ex_users) = ''User''
   \<and> getStructNameForQuery
        (fst (Generate_models (\<lambda>i keys. keys) (ex_gen (Some ex_twins) [ex_get_user, ex_list_labels])))
        ex_get_user = ''Member''
   \<and> fieldSig (map (columnField (ex_gen (Some ex_twins) [ex_get_user, ex_list_labels]))
                  (Query_Columns ex_list_labels))
     = fieldSig (Struct_Fields (tableStruct (ex_gen (Some ex_twins) [ex_get_user, ex_list_labels]) ex_tags))
   \<and> Struct_Name (tableStruct (ex_gen (Some ex_twins) [ex_get_user, ex_list_labels]) ex_tags) = ''Tag''
   \<and> getStructNameForQuery
        (fst (Generate_models (\<lambda>i keys. keys) (ex_gen (Some ex_twins) [ex_get_user, ex_list_labels])))
        ex_list_labels = []"
  by code_simp

section \<open>The first byte of a name\<close>

text \<open>
  \<open>toPascalCase\<close> upper-cases \<open>string(str[0])\<close>, the first byte read as a code
  point.  On an ASCII byte this is the upper case of the byte; a byte of \<open>0x80\<close> or more
  is written as two bytes, so the first byte \<open>0xC3\<close> of a name that starts with
  \<open>U+00E9\<close> becomes \<open>0xC3 0x83\<close>.
\<close>

lemma ToUpper_byte_ascii: "(of_char b :: nat) < 0x80 \<Longrightarrow> ToUpper_byte b = [upper_char b]"
  by (simp add: ToUpper_byte_def)

lemma ToLower_byte_ascii: "(of_char b :: nat) < 0x80 \<Longrightarrow> ToLower_byte b = [lower_char b]"
  by (simp add: ToLower_byte_def)

lemma toPascalCase_first_byte:
  "toPascalCase [CHR 0xC3, CHR 0xA9] = [CHR 0xC3, CHR 0x83, CHR 0xA9]
   \<and> toPascalCase [CHR 0xE9, CHR ''a''] = [CHR 0xC3, CHR 0x89, CHR ''a'']"
  by code_simp

section \<open>The tests of the repository\<close>

text \<open>The tables of \<open>strings_test.go\<close>: the string functions of the model give the results the tests of the repository expect.\<close>

lemma toSnakeCase_tests:
  "map toSnakeCase
     [''GetAuthor'', ''ListAuthors'', ''CreateAuthor'', ''HTTPRequest'', ''XMLParser'', ''IOError'',
      ''get_author'', ''GetAuthorByID'', ''ID'', '''']
   = [''get_author'', ''list_authors'', ''create_author'', ''http_request'', ''xml_parser'',
      ''io_error'', ''get_author'', ''get_author_by_id'', ''id'', '''']"
  by code_simp

lemma toPascalCase_tests:
  "map toPascalCase
     [''get_author'', ''list_authors'', ''create_author'', ''http_request'', ''xml_parser'',
      ''io_error'', ''get_author_by_id'', ''id'', ''ID'', ''GetAuthor'', ''get-author'',
      ''get author'', '''']
   = [''GetAuthor'', ''ListAuthors'', ''CreateAuthor'', ''HttpRequest'', ''XmlParser'', ''IoError'',
      ''GetAuthorById'', ''Id'', ''ID'', ''GetAuthor'', ''GetAuthor'', ''GetAuthor'', '''']"
  by code_simp

lemma toConstantCase_tests:
  "map toConstantCase
     [''GetAuthor'', ''ListAuthors'', ''CreateAuthor'', ''HTTPRequest'', ''XMLParser'', ''IOError'',
      ''get_author'', ''GetAuthorByID'', ''ID'', '''']
   = [''GET_AUTHOR'', ''LIST_AUTHORS'', ''CREATE_AUTHOR'', ''HTTP_REQUEST'', ''XML_PARSER'',
      ''IO_ERROR'', ''GET_AUTHOR'', ''GET_AUTHOR_BY_ID'', ''ID'', '''']"
  by code_simp

lemma singularize_tests:
  "map singularize
     [''books'', ''authors'', ''users'', ''posts'', ''companies'', ''cities'', ''stories'',
      ''boxes'', ''classes'', ''processes'', ''dishes'', ''churches'', ''knives'', ''lives'',
      ''wives'', ''children'', ''people'', ''men'', ''women'', ''feet'', ''teeth'', ''geese'',
      ''mice'', ''book'', ''author'', ''person'', '''', ''a'', ''data'']
   = [''book'', ''author'', ''user'', ''post'', ''company'', ''city'', ''story'',
      ''box'', ''class'', ''process'', ''dish'', ''church'', ''knife'', ''life'',
      ''wife'', ''child'', ''person'', ''man'', ''woman'', ''foot'', ''tooth'', ''goose'',
      ''mouse'', ''book'', ''author'', ''person'', '''', ''a'', ''data'']"
  by code_simp

end
